theory Spec2Isabelle
  imports Complex_Main "HOL-Library.Multiset"
begin

section \<open>Text\<close>

text \<open>
  A Python \<^verbatim>\<open>str\<close> is kept as the bytes of its UTF-8 form, one code point after the
  other; a surrogate (a code point from D800 to DFFF, which \<^verbatim>\<open>json.loads\<close> delivers for
  an unpaired escape and \<^verbatim>\<open>os.getenv\<close> for an undecodable byte) is kept as the three
  bytes the same scheme gives it. ASCII text stands for itself. The bytes of a \<^verbatim>\<open>str\<close>
  are well-formed UTF-8 (RFC 3629: no overlong form, no surrogate, nothing above
  10FFFF) exactly when it holds no surrogate, and that is when \<^verbatim>\<open>str.encode()\<close>
  returns them; otherwise it raises \<^verbatim>\<open>UnicodeEncodeError\<close>.
\<close>

definition continuation :: "char \<Rightarrow> bool" where
  "continuation c = (128 \<le> (of_char c :: nat) \<and> (of_char c :: nat) \<le> 191)"

fun utf8_valid :: "char list \<Rightarrow> bool" where
  "utf8_valid [] = True"
| "utf8_valid (b # bs) =
     (let n = (of_char b :: nat) in
      if n < 128 then utf8_valid bs
      else if 194 \<le> n \<and> n \<le> 223 then
        (case bs of c1 # bs' \<Rightarrow> continuation c1 \<and> utf8_valid bs' | _ \<Rightarrow> False)
      else if 224 \<le> n \<and> n \<le> 239 then
        (case bs of
           c1 # c2 # bs' \<Rightarrow>
             continuation c1 \<and> continuation c2
             \<and> (n = 224 \<longrightarrow> 160 \<le> (of_char c1 :: nat))
             \<and> (n = 237 \<longrightarrow> (of_char c1 :: nat) \<le> 159)
             \<and> utf8_valid bs'
         | _ \<Rightarrow> False)
      else if 240 \<le> n \<and> n \<le> 244 then
        (case bs of
           c1 # c2 # c3 # bs' \<Rightarrow>
             continuation c1 \<and> continuation c2 \<and> continuation c3
             \<and> (n = 240 \<longrightarrow> 144 \<le> (of_char c1 :: nat))
             \<and> (n = 244 \<longrightarrow> (of_char c1 :: nat) \<le> 143)
             \<and> utf8_valid bs'
         | _ \<Rightarrow> False)
      else False)"

text \<open>The number of code points of a text: every byte but the continuation bytes.\<close>

definition code_points :: "string \<Rightarrow> nat" where
  "code_points s = length (filter (\<lambda>c. \<not> continuation c) s)"

section \<open>Python values as the exporter sees them\<close>

text \<open>
  The exporter (\<^verbatim>\<open>bitcoin_exporter.py\<close>) handles whatever \<^verbatim>\<open>json.loads\<close> hands back,
  without checking its type. A decoded JSON document is one of the values below;
  \<^verbatim>\<open>None\<close> is both JSON's \<^verbatim>\<open>null\<close> and the "absent" marker of the RPC client.
  A finite float is given by the real number it denotes.
\<close>

datatype pyfloat = Finite real | PosInf | NegInf | NaN

datatype pyval =
    PNone
  | PBool bool
  | PInt int
  | PFloat pyfloat
  | PStr string
  | PList "pyval list"
  | PDict "(string \<times> pyval) list"

text \<open>
  The exceptions the code can meet, each with its message (\<^verbatim>\<open>str(e)\<close>); all of them
  are subclasses of \<^verbatim>\<open>Exception\<close>.
\<close>

datatype exn =
    AttributeError string
  | TypeError string
  | ResolverError string
  | ValueError string
  | RecursionError string
  | UnicodeEncodeError string

fun exn_message :: "exn \<Rightarrow> string" where
  "exn_message (AttributeError msg) = msg"
| "exn_message (TypeError msg) = msg"
| "exn_message (ResolverError msg) = msg"
| "exn_message (ValueError msg) = msg"
| "exn_message (RecursionError msg) = msg"
| "exn_message (UnicodeEncodeError msg) = msg"

text \<open>
  What the program takes from Python's library without this model spelling it out:
  \<^verbatim>\<open>repr\<close> of a float, a list or a dict; whether \<^verbatim>\<open>json.dumps\<close> raises on a value
  (\<^verbatim>\<open>RecursionError\<close> on deep nesting) and with which message; whether the URL checks
  of \<^verbatim>\<open>urllib\<close>, beyond the bracket check modelled below, refuse a URL, and with which
  message; and the message of the \<^verbatim>\<open>UnicodeEncodeError\<close> for a text that cannot be
  encoded.
\<close>

record pylib =
  repr_of :: "pyval \<Rightarrow> string"
  dumps_raises :: "pyval \<Rightarrow> string option"
  url_refused :: "string \<Rightarrow> string option"
  encode_message :: "string \<Rightarrow> string"

text \<open>\<^verbatim>\<open>s.encode()\<close> and \<^verbatim>\<open>s.encode('utf-8')\<close>.\<close>

definition encode :: "pylib \<Rightarrow> string \<Rightarrow> exn + char list" where
  "encode lib s =
     (if utf8_valid s then Inr s else Inl (UnicodeEncodeError (encode_message lib s)))"

text \<open>\<^verbatim>\<open>type(v).__name__\<close>, as the messages of the exceptions print it.\<close>

fun type_name :: "pyval \<Rightarrow> string" where
  "type_name PNone = ''NoneType''"
| "type_name (PBool b) = ''bool''"
| "type_name (PInt i) = ''int''"
| "type_name (PFloat f) = ''float''"
| "type_name (PStr s) = ''str''"
| "type_name (PList xs) = ''list''"
| "type_name (PDict kvs) = ''dict''"

text \<open>Truth value testing, as \<^verbatim>\<open>if data:\<close> does it.\<close>

fun truthy :: "pyval \<Rightarrow> bool" where
  "truthy PNone = False"
| "truthy (PBool b) = b"
| "truthy (PInt i) = (i \<noteq> 0)"
| "truthy (PFloat f) = (f \<noteq> Finite 0)"
| "truthy (PStr s) = (s \<noteq> [])"
| "truthy (PList xs) = (xs \<noteq> [])"
| "truthy (PDict kvs) = (kvs \<noteq> [])"

text \<open>
  \<^verbatim>\<open>v.get(key, default)\<close>: only a dict has the method, every other value raises
  \<^verbatim>\<open>AttributeError\<close>. A dict is kept as the list of its items.
\<close>

fun py_get :: "pyval \<Rightarrow> string \<Rightarrow> pyval \<Rightarrow> exn + pyval" where
  "py_get (PDict kvs) key dflt =
     Inr (case map_of kvs key of None \<Rightarrow> dflt | Some v \<Rightarrow> v)"
| "py_get v key dflt =
     Inl (AttributeError ([CHR 0x27] @ type_name v @ [CHR 0x27]
                          @ '' object has no attribute '' @ [CHR 0x27] @ ''get'' @ [CHR 0x27]))"

text \<open>\<^verbatim>\<open>len(v)\<close>: defined on strings, lists and dicts, \<^verbatim>\<open>TypeError\<close> otherwise.\<close>

fun py_len :: "pyval \<Rightarrow> exn + int" where
  "py_len (PStr s) = Inr (int (code_points s))"
| "py_len (PList xs) = Inr (int (length xs))"
| "py_len (PDict kvs) = Inr (int (length (remdups (map fst kvs))))"
| "py_len v =
     Inl (TypeError (''object of type '' @ [CHR 0x27] @ type_name v @ [CHR 0x27]
                     @ '' has no len()''))"

section \<open>Configuration\<close>

type_synonym environ = "string \<rightharpoonup> string"

text \<open>\<^verbatim>\<open>os.getenv(key, default)\<close>.\<close>

definition getenv :: "environ \<Rightarrow> string \<Rightarrow> string \<Rightarrow> string" where
  "getenv env key dflt = (case env key of None \<Rightarrow> dflt | Some v \<Rightarrow> v)"

section \<open>RPC client\<close>

text \<open>
  What \<^verbatim>\<open>urllib.request.urlopen(request, timeout=10)\<close> followed by
  \<^verbatim>\<open>json.loads(response.read().decode('utf-8'))\<close> can do: raise while connecting or
  reading (connection error, timeout, HTTP error status), raise while decoding the
  body, or yield the decoded document.
\<close>

datatype http_reply = TransportError | Undecodable | Decoded pyval

text \<open>
  The request handed to \<^verbatim>\<open>urlopen\<close>. \<open>payload\<close> is the dict that \<^verbatim>\<open>json.dumps\<close>
  serialises into the body, \<open>basic_auth\<close> the \<^verbatim>\<open>user:password\<close> text that goes
  base64-encoded into the \<^verbatim>\<open>Authorization\<close> header.
\<close>

record http_request =
  url :: string
  payload :: pyval
  content_type :: string
  basic_auth :: string
  timeout :: nat

type_synonym network = "http_request \<Rightarrow> http_reply"

text \<open>\<^verbatim>\<open>x or y\<close> on an optional string and on an optional list.\<close>

definition or_str :: "string option \<Rightarrow> string \<Rightarrow> string" where
  "or_str x y = (case x of None \<Rightarrow> y | Some s \<Rightarrow> if s = [] then y else s)"

definition or_list :: "pyval list option \<Rightarrow> pyval list \<Rightarrow> pyval list" where
  "or_list x y = (case x of None \<Rightarrow> y | Some l \<Rightarrow> if l = [] then y else l)"

text \<open>
  The check that makes \<^verbatim>\<open>urllib.request.Request(url, data=data)\<close> raise
  \<^verbatim>\<open>ValueError: Invalid IPv6 URL\<close>: the network location of the URL, the text between
  \<^verbatim>\<open>http://\<close> and the first of \<^verbatim>\<open>/\<close>, \<^verbatim>\<open>?\<close> and \<^verbatim>\<open>#\<close>, holds one kind of square bracket
  without the other.
\<close>

definition unmatched_bracket :: "string \<Rightarrow> bool" where
  "unmatched_bracket full_url =
     (let netloc = takeWhile (\<lambda>c. c \<notin> {CHR ''/'', CHR ''?'', CHR ''#''}) (drop 7 full_url)
      in (CHR ''['' \<in> set netloc \<and> CHR '']'' \<notin> set netloc)
         \<or> (CHR '']'' \<in> set netloc \<and> CHR ''['' \<notin> set netloc))"

text \<open>
  Lines 21 to 47 of \<^verbatim>\<open>make_bitcoin_rpc_call\<close>: everything before \<^verbatim>\<open>urlopen\<close>. Three of
  the statements can raise, in this order: \<^verbatim>\<open>json.dumps\<close> (line 38), the constructor of
  \<^verbatim>\<open>Request\<close> (line 41) and \<^verbatim>\<open>credentials.encode\<close> (line 46).
\<close>

definition build_request ::
  "pylib \<Rightarrow> environ \<Rightarrow> string \<Rightarrow> pyval list option \<Rightarrow> string option \<Rightarrow> exn + http_request" where
  "build_request lib env method params target_host =
    (let host = or_str target_host
                  (getenv env ''BITCOIN_HOST'' ''bitcoin-stack.bitcoin.svc.cluster.local'');
         port = getenv env ''BITCOIN_PORT'' ''18332'';
         user = getenv env ''BITCOIN_USER'' ''bitcoin'';
         password = getenv env ''BITCOIN_PASSWORD'' ''bitcoin'';
         full_url = ''http://'' @ host @ '':'' @ port;
         rpc_request = PDict [(''jsonrpc'', PStr ''1.0''), (''id'', PStr ''exporter''),
                              (''method'', PStr method),
                              (''params'', PList (or_list params []))];
         credentials = user @ '':'' @ password
     in (case dumps_raises lib rpc_request of
           Some msg \<Rightarrow> Inl (RecursionError msg)
         | None \<Rightarrow>
             (if unmatched_bracket full_url then Inl (ValueError ''Invalid IPv6 URL'')
              else (case url_refused lib full_url of
                      Some msg \<Rightarrow> Inl (ValueError msg)
                    | None \<Rightarrow>
                        (if utf8_valid credentials then
                           Inr \<lparr>url = full_url,
                                payload = rpc_request,
                                content_type = ''application/json'',
                                basic_auth = credentials,
                                timeout = 10\<rparr>
                         else Inl (UnicodeEncodeError (encode_message lib credentials)))))))"

text \<open>
  \<^verbatim>\<open>make_bitcoin_rpc_call(method, params=None, target_host=None)\<close>. The second component
  of the result lists the requests passed to \<^verbatim>\<open>urlopen\<close>, in order: the attempts made.
  Every exception inside the \<^verbatim>\<open>try\<close> ends in \<^verbatim>\<open>return None\<close>, and one raised before
  line 50 ends there without any request made.
\<close>

definition make_bitcoin_rpc_call ::
  "pylib \<Rightarrow> environ \<Rightarrow> network \<Rightarrow> string \<Rightarrow> pyval list option \<Rightarrow> string option
     \<Rightarrow> pyval \<times> http_request list" where
  "make_bitcoin_rpc_call lib env urlopen method params target_host =
    (case build_request lib env method params target_host of
       Inl e \<Rightarrow> (PNone, [])
     | Inr request \<Rightarrow>
         (case urlopen request of
            TransportError \<Rightarrow> PNone
          | Undecodable \<Rightarrow> PNone
          | Decoded result \<Rightarrow>
              (case py_get result ''result'' PNone of
                 Inl e \<Rightarrow> PNone
               | Inr v \<Rightarrow> v),
          [request]))"

section \<open>Per-pod collector\<close>

text \<open>The dict returned by \<^verbatim>\<open>get_pod_metrics\<close>.\<close>

record metrics =
  pod :: string
  host :: string
  blocks :: pyval
  peers :: int
  connections :: pyval
  difficulty :: pyval
  verification_progress :: pyval
  healthy :: bool

text \<open>\<^verbatim>\<open>pod_host.split('.')[0]\<close>: the text before the first dot.\<close>

definition pod_name_of :: "string \<Rightarrow> string" where
  "pod_name_of pod_host = takeWhile (\<lambda>c. c \<noteq> CHR ''.'') pod_host"

text \<open>The result of one of the three calls made for a pod.\<close>

definition rpc_result :: "pylib \<Rightarrow> environ \<Rightarrow> network \<Rightarrow> string \<Rightarrow> string \<Rightarrow> pyval" where
  "rpc_result lib env urlopen method pod_host =
     fst (make_bitcoin_rpc_call lib env urlopen method None (Some pod_host))"

text \<open>
  Sequencing inside a \<^verbatim>\<open>try\<close> block: an exception (\<open>Inl\<close>) skips the rest.
\<close>

definition and_then :: "exn + 'a \<Rightarrow> ('a \<Rightarrow> exn + 'b) \<Rightarrow> exn + 'b" where
  "and_then r f = (case r of Inl e \<Rightarrow> Inl e | Inr x \<Rightarrow> f x)"

text \<open>The body of the \<^verbatim>\<open>try\<close> block of \<^verbatim>\<open>get_pod_metrics\<close>: \<open>Inl\<close> is a raised exception.\<close>

definition get_pod_metrics_try ::
  "pylib \<Rightarrow> environ \<Rightarrow> network \<Rightarrow> string \<Rightarrow> exn + metrics" where
  "get_pod_metrics_try lib env urlopen pod_host =
    (let data = rpc_result lib env urlopen ''getblockchaininfo'' pod_host in
     and_then
       (if truthy data then
          and_then (py_get data ''blocks'' (PInt 0)) (\<lambda>b.
          and_then (py_get data ''difficulty'' (PInt 0)) (\<lambda>d.
          and_then (py_get data ''verificationprogress'' (PInt 0)) (\<lambda>v.
          Inr (b, d, v))))
        else Inr (PInt 0, PInt 0, PInt 0))
       (\<lambda>(blocks', difficulty', verification_progress').
     let peers' = rpc_result lib env urlopen ''getpeerinfo'' pod_host in
     and_then
       (if truthy peers' then py_len peers' else Inr 0)
       (\<lambda>peer_count.
     let network_data = rpc_result lib env urlopen ''getnetworkinfo'' pod_host in
     and_then
       (if truthy network_data then py_get network_data ''connections'' (PInt 0)
        else Inr (PInt 0))
       (\<lambda>connections'.
     Inr \<lparr>pod = pod_name_of pod_host,
          host = pod_host,
          blocks = blocks',
          peers = peer_count,
          connections = connections',
          difficulty = difficulty',
          verification_progress = verification_progress',
          healthy = (data \<noteq> PNone)\<rparr>))))"

text \<open>\<^verbatim>\<open>get_pod_metrics(pod_host)\<close>: the \<^verbatim>\<open>except Exception\<close> branch returns the zero record.\<close>

definition get_pod_metrics :: "pylib \<Rightarrow> environ \<Rightarrow> network \<Rightarrow> string \<Rightarrow> metrics" where
  "get_pod_metrics lib env urlopen pod_host =
    (case get_pod_metrics_try lib env urlopen pod_host of
       Inr m \<Rightarrow> m
     | Inl e \<Rightarrow> \<lparr>pod = pod_name_of pod_host,
                 host = pod_host,
                 blocks = PInt 0,
                 peers = 0,
                 connections = PInt 0,
                 difficulty = PInt 0,
                 verification_progress = PInt 0,
                 healthy = False\<rparr>)"


section \<open>Pod discovery\<close>

text \<open>
  What \<^verbatim>\<open>socket.gethostbyname\<close> can do with a host name: resolve it, raise
  \<^verbatim>\<open>socket.gaierror\<close> (the only exception \<^verbatim>\<open>discover_bitcoin_pods\<close> catches), or raise
  something else, which leaves the function.
\<close>

datatype resolution = Resolved | Gaierror | OtherFailure string

type_synonym resolver = "string \<Rightarrow> resolution"

text \<open>Decimal digits of a natural number, as an f-string prints the loop index.\<close>

fun str_nat :: "nat \<Rightarrow> string" where
  "str_nat n =
     (if n < 10 then [char_of (48 + n)]
      else str_nat (n div 10) @ [char_of (48 + n mod 10)])"

declare str_nat.simps [simp del]

text \<open>
  The loop \<^verbatim>\<open>for i in range(10)\<close> of \<^verbatim>\<open>discover_bitcoin_pods\<close>, over the ordinals still
  to try. \<open>pods\<close> is the list built so far; \<open>probed\<close> records every host name
  given to the resolver, in order. \<^verbatim>\<open>break\<close> returns what has been found.
\<close>

fun discover_loop ::
  "resolver \<Rightarrow> string \<Rightarrow> string \<Rightarrow> nat list \<Rightarrow> string list \<Rightarrow> string list
     \<Rightarrow> (exn + string list) \<times> string list" where
  "discover_loop gethostbyname service_name base_host [] pods probed = (Inr pods, probed)"
| "discover_loop gethostbyname service_name base_host (i # rest) pods probed =
     (let pod_host = service_name @ ''-'' @ str_nat i @ ''.'' @ base_host in
      case gethostbyname pod_host of
        Resolved \<Rightarrow>
          discover_loop gethostbyname service_name base_host rest
            (pods @ [pod_host]) (probed @ [pod_host])
      | Gaierror \<Rightarrow> (Inr pods, probed @ [pod_host])
      | OtherFailure msg \<Rightarrow> (Inl (ResolverError msg), probed @ [pod_host]))"

definition discover_bitcoin_pods ::
  "environ \<Rightarrow> resolver \<Rightarrow> (exn + string list) \<times> string list" where
  "discover_bitcoin_pods env gethostbyname =
    (let service_name = getenv env ''BITCOIN_SERVICE_NAME'' ''bitcoin-stack'';
         namespace = getenv env ''BITCOIN_NAMESPACE'' ''bitcoin'';
         base_host = service_name @ ''.'' @ namespace @ ''.svc.cluster.local''
     in discover_loop gethostbyname service_name base_host [0..<10] [] [])"

section \<open>Fallback and fan-out\<close>

text \<open>Lines 151 to 157 of the handler: an empty discovery is replaced by pod 0.\<close>

definition fallback_host :: "environ \<Rightarrow> string" where
  "fallback_host env =
    (let service_name = getenv env ''BITCOIN_SERVICE_NAME'' ''bitcoin-stack'';
         namespace = getenv env ''BITCOIN_NAMESPACE'' ''bitcoin''
     in service_name @ ''-0.'' @ service_name @ ''.'' @ namespace @ ''.svc.cluster.local'')"

definition pods_or_fallback :: "environ \<Rightarrow> string list \<Rightarrow> string list" where
  "pods_or_fallback env pods = (if pods = [] then [fallback_host env] else pods)"

text \<open>
  \<^verbatim>\<open>as_completed\<close> yields the submitted futures in the order in which the worker
  threads finish, which the program does not control: at each step any future still
  pending may be the next one.
\<close>

inductive as_completed :: "'a list \<Rightarrow> 'a list \<Rightarrow> bool" where
  all_done: "as_completed [] []"
| next_done: "x \<in> set pending \<Longrightarrow> as_completed (remove1 x pending) rest
              \<Longrightarrow> as_completed pending (x # rest)"

code_pred as_completed .

text \<open>
  Lines 162 to 167: one future per pod, each running \<^verbatim>\<open>get_pod_metrics\<close>; the results are
  appended to \<^verbatim>\<open>all_metrics\<close> in completion order. A future is represented by the
  record it returns.
\<close>

inductive collect_all ::
  "pylib \<Rightarrow> environ \<Rightarrow> network \<Rightarrow> string list \<Rightarrow> metrics list \<Rightarrow> bool" where
  collected: "as_completed (map (get_pod_metrics lib env urlopen) pods) all_metrics
              \<Longrightarrow> collect_all lib env urlopen pods all_metrics"

code_pred collect_all .

section \<open>Rendering\<close>

text \<open>
  \<^verbatim>\<open>str(v)\<close>, as the f-string applies it to a field. The text of a float and of a list
  or dict is the library's \<^verbatim>\<open>repr\<close>.
\<close>

definition str_int :: "int \<Rightarrow> string" where
  "str_int i = (if i < 0 then ''-'' @ str_nat (nat (- i)) else str_nat (nat i))"

fun py_str :: "pylib \<Rightarrow> pyval \<Rightarrow> string" where
  "py_str lib PNone = ''None''"
| "py_str lib (PBool b) = (if b then ''True'' else ''False'')"
| "py_str lib (PInt i) = str_int i"
| "py_str lib (PStr s) = s"
| "py_str lib v = repr_of lib v"

text \<open>\<^verbatim>\<open>pod_label = f'pod="{pod_name}"'\<close>.\<close>

definition pod_label :: "string \<Rightarrow> string" where
  "pod_label pod_name = ''pod='' @ [CHR 0x22] @ pod_name @ [CHR 0x22]"

text \<open>The text added to \<^verbatim>\<open>metrics_output\<close> for one record (lines 176 to 194).\<close>

definition metrics_block :: "pylib \<Rightarrow> metrics \<Rightarrow> string" where
  "metrics_block lib pod_metrics =
    (let label = pod_label (pod pod_metrics) in
       ''# HELP bitcoin_blocks Current block height\<newline>''
     @ ''# TYPE bitcoin_blocks gauge\<newline>''
     @ ''bitcoin_blocks{'' @ label @ ''} '' @ py_str lib (blocks pod_metrics) @ ''\<newline>''
     @ ''# HELP bitcoin_peers Number of connected peers\<newline>''
     @ ''# TYPE bitcoin_peers gauge\<newline>''
     @ ''bitcoin_peers{'' @ label @ ''} '' @ str_int (peers pod_metrics) @ ''\<newline>''
     @ ''# HELP bitcoin_connections Number of network connections\<newline>''
     @ ''# TYPE bitcoin_connections gauge\<newline>''
     @ ''bitcoin_connections{'' @ label @ ''} ''
         @ py_str lib (connections pod_metrics) @ ''\<newline>''
     @ ''# HELP bitcoin_difficulty Current network difficulty\<newline>''
     @ ''# TYPE bitcoin_difficulty gauge\<newline>''
     @ ''bitcoin_difficulty{'' @ label @ ''} ''
         @ py_str lib (difficulty pod_metrics) @ ''\<newline>''
     @ ''# HELP bitcoin_verification_progress Blockchain verification progress (0-1)\<newline>''
     @ ''# TYPE bitcoin_verification_progress gauge\<newline>''
     @ ''bitcoin_verification_progress{'' @ label @ ''} ''
         @ py_str lib (verification_progress pod_metrics) @ ''\<newline>''
     @ ''# HELP bitcoin_pod_healthy Bitcoin pod health status\<newline>''
     @ ''# TYPE bitcoin_pod_healthy gauge\<newline>''
     @ ''bitcoin_pod_healthy{'' @ label @ ''} ''
         @ str_int (if healthy pod_metrics then 1 else 0) @ ''\<newline>'')"

text \<open>
  Lines 170 to 194: \<^verbatim>\<open>metrics_output\<close> starts empty and grows by one block per record,
  in the order of \<^verbatim>\<open>all_metrics\<close>.
\<close>

definition render :: "pylib \<Rightarrow> metrics list \<Rightarrow> string" where
  "render lib all_metrics =
     foldl (\<lambda>metrics_output pod_metrics. metrics_output @ metrics_block lib pod_metrics)
       [] all_metrics"

section \<open>HTTP handler\<close>

text \<open>
  What the handler does to its connection, in order: \<^verbatim>\<open>send_response\<close>,
  \<^verbatim>\<open>send_header\<close>, \<^verbatim>\<open>end_headers\<close> and \<^verbatim>\<open>wfile.write\<close>.
\<close>

datatype action =
    Send_response nat
  | Send_header string string
  | End_headers
  | Write "char list"

text \<open>
  The outcome of a request: the actions performed, and the exception that left
  \<^verbatim>\<open>do_GET\<close>, if one did.
\<close>

record outcome =
  sent :: "action list"
  raised :: "exn option"

text \<open>What a request runs against: the process environment, the resolver, the network.\<close>

record world =
  environ_of :: environ
  gethostbyname :: resolver
  urlopen :: network

text \<open>
  Lines 200 to 203, the \<^verbatim>\<open>except\<close> branch of the \<^verbatim>\<open>/metrics\<close> path. The message is
  encoded after \<^verbatim>\<open>end_headers\<close>; if that raises, the exception leaves \<^verbatim>\<open>do_GET\<close>.
\<close>

definition error_response :: "pylib \<Rightarrow> exn \<Rightarrow> outcome" where
  "error_response lib e =
     (case encode lib (''Error: '' @ exn_message e) of
        Inr bytes \<Rightarrow> \<lparr>sent = [Send_response 500, End_headers, Write bytes], raised = None\<rparr>
      | Inl e' \<Rightarrow> \<lparr>sent = [Send_response 500, End_headers], raised = Some e'\<rparr>)"

text \<open>
  Lines 196 to 199, with the \<^verbatim>\<open>except\<close> branch behind them: the response that carries
  the rendered records. \<^verbatim>\<open>metrics_output.encode()\<close> is evaluated after the status line
  and the headers are out, so when it raises, the 500 response follows them.
\<close>

definition metrics_response :: "pylib \<Rightarrow> metrics list \<Rightarrow> outcome" where
  "metrics_response lib all_metrics =
     (case encode lib (render lib all_metrics) of
        Inr bytes \<Rightarrow>
          \<lparr>sent = [Send_response 200, Send_header ''Content-type'' ''text/plain'',
                   End_headers, Write bytes],
           raised = None\<rparr>
      | Inl e \<Rightarrow>
          \<lparr>sent = [Send_response 200, Send_header ''Content-type'' ''text/plain'',
                   End_headers] @ sent (error_response lib e),
           raised = raised (error_response lib e)\<rparr>)"

text \<open>
  \<^verbatim>\<open>BitcoinMetricsHandler.do_GET\<close>, as a relation between the request path and the
  outcome, since the order of the records depends on the threads. An exception that
  leaves discovery gives the 500 response. Printing is left out.
\<close>

inductive do_GET :: "pylib \<Rightarrow> world \<Rightarrow> string \<Rightarrow> outcome \<Rightarrow> bool" where
  metrics_ok:
    "path = ''/metrics''
     \<Longrightarrow> fst (discover_bitcoin_pods (environ_of w) (gethostbyname w)) = Inr pods
     \<Longrightarrow> collect_all lib (environ_of w) (urlopen w) (pods_or_fallback (environ_of w) pods)
           all_metrics
     \<Longrightarrow> do_GET lib w path (metrics_response lib all_metrics)"
| metrics_error:
    "path = ''/metrics''
     \<Longrightarrow> fst (discover_bitcoin_pods (environ_of w) (gethostbyname w)) = Inl e
     \<Longrightarrow> do_GET lib w path (error_response lib e)"
| health:
    "path = ''/health''
     \<Longrightarrow> do_GET lib w path
           \<lparr>sent = [Send_response 200, Send_header ''Content-type'' ''text/plain'',
                    End_headers, Write ''OK''],
            raised = None\<rparr>"
| not_found:
    "path \<noteq> ''/metrics'' \<Longrightarrow> path \<noteq> ''/health''
     \<Longrightarrow> do_GET lib w path \<lparr>sent = [Send_response 404, End_headers], raised = None\<rparr>"

code_pred do_GET .

section \<open>Vocabulary of the statements\<close>

text \<open>
  The request of a call for a pod can be built: no statement before \<^verbatim>\<open>urlopen\<close> raises.
\<close>

definition request_built :: "pylib \<Rightarrow> environ \<Rightarrow> string \<Rightarrow> string \<Rightarrow> bool" where
  "request_built lib env method pod_host =
     (case build_request lib env method None (Some pod_host) of
        Inl e \<Rightarrow> False
      | Inr request \<Rightarrow> True)"

text \<open>Which values have a \<^verbatim>\<open>get\<close> method, and which have a length.\<close>

definition is_dict :: "pyval \<Rightarrow> bool" where
  "is_dict v = (case v of PDict kvs \<Rightarrow> True | _ \<Rightarrow> False)"

definition is_sized :: "pyval \<Rightarrow> bool" where
  "is_sized v =
     (case v of PStr s \<Rightarrow> True | PList xs \<Rightarrow> True | PDict kvs \<Rightarrow> True | _ \<Rightarrow> False)"

text \<open>The value a result holds under a key, 0 when it holds none.\<close>

definition field_or_zero :: "pyval \<Rightarrow> string \<Rightarrow> pyval" where
  "field_or_zero v key =
     (case v of PDict kvs \<Rightarrow> (case map_of kvs key of None \<Rightarrow> PInt 0 | Some x \<Rightarrow> x)
              | _ \<Rightarrow> PInt 0)"

definition size_or_zero :: "pyval \<Rightarrow> int" where
  "size_or_zero v = (case py_len v of Inl e \<Rightarrow> 0 | Inr n \<Rightarrow> n)"

text \<open>
  The three results let the \<^verbatim>\<open>try\<close> block of \<^verbatim>\<open>get_pod_metrics\<close> run to its end: each
  is falsy, or has the type its extraction needs.
\<close>

definition extractable :: "pyval \<Rightarrow> pyval \<Rightarrow> pyval \<Rightarrow> bool" where
  "extractable data peers' network_data \<longleftrightarrow>
     (truthy data \<longrightarrow> is_dict data) \<and> (truthy peers' \<longrightarrow> is_sized peers')
     \<and> (truthy network_data \<longrightarrow> is_dict network_data)"

definition zero_record :: "string \<Rightarrow> metrics" where
  "zero_record pod_host =
     \<lparr>pod = pod_name_of pod_host, host = pod_host, blocks = PInt 0, peers = 0,
      connections = PInt 0, difficulty = PInt 0, verification_progress = PInt 0,
      healthy = False\<rparr>"

text \<open>A number between 0 and 1, whether Python holds it as an int or as a float.\<close>

definition in_unit_interval :: "pyval \<Rightarrow> bool" where
  "in_unit_interval v =
     (case v of PInt i \<Rightarrow> 0 \<le> i \<and> i \<le> 1
              | PFloat (Finite r) \<Rightarrow> 0 \<le> r \<and> r \<le> 1
              | _ \<Rightarrow> False)"

section \<open>Example nodes\<close>

text \<open>The method a request asks for, and a JSON-RPC envelope around a result.\<close>

definition method_of :: "http_request \<Rightarrow> string" where
  "method_of request =
     (case payload request of
        PDict kvs \<Rightarrow> (case map_of kvs ''method'' of Some (PStr m) \<Rightarrow> m | _ \<Rightarrow> [])
      | _ \<Rightarrow> [])"

definition envelope :: "pyval \<Rightarrow> http_reply" where
  "envelope v = Decoded (PDict [(''result'', v), (''error'', PNone), (''id'', PStr ''exporter'')])"

text \<open>
  What a healthy node answers to each of the three methods, and a node that answers
  only the methods listed and lets every other call time out.
\<close>

definition full_node_reply :: "string \<Rightarrow> http_reply" where
  "full_node_reply method =
     (if method = ''getblockchaininfo'' then
        envelope (PDict [(''blocks'', PInt 800000), (''difficulty'', PFloat (Finite 55000000000000)),
                         (''verificationprogress'', PFloat (Finite 1))])
      else if method = ''getpeerinfo'' then
        envelope (PList [PDict [(''id'', PInt 0)], PDict [(''id'', PInt 1)]])
      else if method = ''getnetworkinfo'' then
        envelope (PDict [(''connections'', PInt 5)])
      else TransportError)"

definition node_answering :: "string list \<Rightarrow> network" where
  "node_answering methods request =
     (if method_of request \<in> set methods then full_node_reply (method_of request)
      else TransportError)"

text \<open>A node that cannot be reached.\<close>

definition unreachable_node :: network where
  "unreachable_node request = TransportError"

text \<open>A node whose chain information is the empty mapping.\<close>

definition empty_info_node :: network where
  "empty_info_node request =
     (if method_of request = ''getblockchaininfo'' then envelope (PDict [])
      else TransportError)"

text \<open>A node that answers the peer call with a number instead of a list.\<close>

definition peer_number_node :: network where
  "peer_number_node request =
     (if method_of request = ''getblockchaininfo'' then
        envelope (PDict [(''blocks'', PInt 1)])
      else if method_of request = ''getpeerinfo'' then envelope (PInt 7)
      else TransportError)"

text \<open>A node that reports its block height as a text of two lines.\<close>

definition two_line_node :: network where
  "two_line_node request =
     (if method_of request = ''getblockchaininfo'' then
        envelope (PDict [(''blocks'', PStr ''0\<newline>bitcoin_blocks 1'')])
      else TransportError)"

text \<open>A node that reports its block height as the text of the lone surrogate U+D800.\<close>

definition surrogate_node :: network where
  "surrogate_node request =
     (if method_of request = ''getblockchaininfo'' then
        envelope (PDict [(''blocks'', PStr [CHR 0xED, CHR 0xA0, CHR 0x80])])
      else TransportError)"

text \<open>A node that reports a verification progress of 1.5.\<close>

definition overshoot_node :: network where
  "overshoot_node request =
     (if method_of request = ''getblockchaininfo'' then
        envelope (PDict [(''verificationprogress'', PFloat (Finite (3 / 2)))])
      else TransportError)"

section \<open>Host names and resolvers of the statements\<close>

text \<open>
  The host name of the pod with ordinal \<open>i\<close>:
  \<^verbatim>\<open><service>-<i>.<service>.<namespace>.svc.cluster.local\<close>, with the service and the
  namespace of the configuration.
\<close>

definition ordinal_host :: "environ \<Rightarrow> nat \<Rightarrow> string" where
  "ordinal_host env i =
     getenv env ''BITCOIN_SERVICE_NAME'' ''bitcoin-stack'' @ ''-'' @ str_nat i @ ''.''
     @ getenv env ''BITCOIN_SERVICE_NAME'' ''bitcoin-stack'' @ ''.''
     @ getenv env ''BITCOIN_NAMESPACE'' ''bitcoin'' @ ''.svc.cluster.local''"

text \<open>A resolver that knows the pods with ordinals below \<open>k\<close> and nothing else.\<close>

definition resolves_below :: "environ \<Rightarrow> nat \<Rightarrow> resolver" where
  "resolves_below env k pod_host =
     (if pod_host \<in> set (map (ordinal_host env) [0..<k]) then Resolved else Gaierror)"

section \<open>The exposition format\<close>

text \<open>
  The text format the renderer is to produce, written from its description: a metric
  family is a \<^verbatim>\<open>HELP\<close> line, a \<^verbatim>\<open>TYPE\<close> line marking it a gauge, and one sample line
  \<^verbatim>\<open>metric_name{pod="value"} sample_value\<close>; a record contributes six families, all
  labelled with its pod name, the last one with sample 1 for a healthy pod and 0
  otherwise.
\<close>

definition family_lines :: "string \<Rightarrow> string \<Rightarrow> string \<Rightarrow> string \<Rightarrow> string list" where
  "family_lines name help label_value sample_value =
     [''# HELP '' @ name @ '' '' @ help,
      ''# TYPE '' @ name @ '' gauge'',
      name @ ''{pod='' @ [CHR 0x22] @ label_value @ [CHR 0x22] @ ''} '' @ sample_value]"

definition exposition_lines :: "pylib \<Rightarrow> metrics \<Rightarrow> string list" where
  "exposition_lines lib r =
     family_lines ''bitcoin_blocks'' ''Current block height'' (pod r) (py_str lib (blocks r))
   @ family_lines ''bitcoin_peers'' ''Number of connected peers'' (pod r) (str_int (peers r))
   @ family_lines ''bitcoin_connections'' ''Number of network connections'' (pod r)
       (py_str lib (connections r))
   @ family_lines ''bitcoin_difficulty'' ''Current network difficulty'' (pod r)
       (py_str lib (difficulty r))
   @ family_lines ''bitcoin_verification_progress''
       ''Blockchain verification progress (0-1)'' (pod r)
       (py_str lib (verification_progress r))
   @ family_lines ''bitcoin_pod_healthy'' ''Bitcoin pod health status'' (pod r)
       (if healthy r then ''1'' else ''0'')"

text \<open>A text made of lines, each ended by a newline, and the lines of a text.\<close>

definition terminate_lines :: "string list \<Rightarrow> string" where
  "terminate_lines ls = concat (map (\<lambda>l. l @ ''\<newline>'') ls)"

fun split_lines :: "string \<Rightarrow> string list" where
  "split_lines [] = []"
| "split_lines (c # cs) =
     (if c = CHR ''\<newline>'' then [] # split_lines cs
      else (case split_lines cs of [] \<Rightarrow> [[c]] | l # ls \<Rightarrow> (c # l) # ls))"

definition newline_free :: "string \<Rightarrow> bool" where
  "newline_free s = (CHR ''\<newline>'' \<notin> set s)"

text \<open>The sample lines of a text: its lines other than the comment lines.\<close>

definition is_comment :: "string \<Rightarrow> bool" where
  "is_comment l = (case l of [] \<Rightarrow> False | c # cs \<Rightarrow> c = CHR ''#'')"

definition sample_lines :: "string \<Rightarrow> string list" where
  "sample_lines text = filter (\<lambda>l. \<not> is_comment l) (split_lines text)"

text \<open>The variable texts of a record hold no newline.\<close>

definition single_line_fields :: "pylib \<Rightarrow> metrics \<Rightarrow> bool" where
  "single_line_fields lib r \<longleftrightarrow>
     newline_free (pod r) \<and> newline_free (py_str lib (blocks r))
     \<and> newline_free (py_str lib (connections r)) \<and> newline_free (py_str lib (difficulty r))
     \<and> newline_free (py_str lib (verification_progress r))"

text \<open>The variable texts of a record can be encoded: none holds a surrogate.\<close>

definition encodable_fields :: "pylib \<Rightarrow> metrics \<Rightarrow> bool" where
  "encodable_fields lib r \<longleftrightarrow>
     utf8_valid (pod r) \<and> utf8_valid (py_str lib (blocks r))
     \<and> utf8_valid (py_str lib (connections r)) \<and> utf8_valid (py_str lib (difficulty r))
     \<and> utf8_valid (py_str lib (verification_progress r))"

section \<open>Example worlds and records\<close>

text \<open>A \<^verbatim>\<open>repr\<close> for the floats of the examples.\<close>

definition sample_repr :: "pyval \<Rightarrow> string" where
  "sample_repr v =
     (if v = PFloat (Finite 1) then ''1.0''
      else if v = PFloat (Finite 55000000000000) then ''55000000000000.0''
      else ''[]'')"

text \<open>A library in which \<^verbatim>\<open>json.dumps\<close> never raises and no further URL is refused.\<close>

definition sample_lib :: pylib where
  "sample_lib =
     \<lparr>repr_of = sample_repr,
      dumps_raises = (\<lambda>v. None),
      url_refused = (\<lambda>u. None),
      encode_message = (\<lambda>s. ''surrogates not allowed'')\<rparr>"

text \<open>Two pods found, both answering every call; and a cluster where nothing answers.\<close>

definition two_pod_world :: world where
  "two_pod_world =
     \<lparr>environ_of = Map.empty, gethostbyname = resolves_below Map.empty 2,
      urlopen = node_answering [''getblockchaininfo'', ''getpeerinfo'', ''getnetworkinfo'']\<rparr>"

definition dark_world :: world where
  "dark_world =
     \<lparr>environ_of = Map.empty, gethostbyname = resolves_below Map.empty 0,
      urlopen = unreachable_node\<rparr>"

definition synced_record :: metrics where
  "synced_record =
     \<lparr>pod = ''bitcoin-stack-0'',
      host = ''bitcoin-stack-0.bitcoin-stack.bitcoin.svc.cluster.local'',
      blocks = PInt 800000, peers = 2, connections = PInt 5,
      difficulty = PFloat (Finite 55000000000000),
      verification_progress = PFloat (Finite 1), healthy = True\<rparr>"

section \<open>Proofs: the RPC client\<close>

lemma build_request_method:
  "build_request lib env method params target_host = Inr request \<Longrightarrow> method_of request = method"
  by (auto simp: build_request_def Let_def method_of_def split: option.splits if_splits)

lemma rpc_result_built:
  "build_request lib env method None (Some h) = Inr request \<Longrightarrow>
   rpc_result lib env net method h =
     (case net request of
        TransportError \<Rightarrow> PNone
      | Undecodable \<Rightarrow> PNone
      | Decoded doc \<Rightarrow> (case py_get doc ''result'' PNone of Inl e \<Rightarrow> PNone | Inr v \<Rightarrow> v))"
  by (simp add: rpc_result_def make_bitcoin_rpc_call_def)

lemma rpc_result_not_built:
  "build_request lib env method None (Some h) = Inl e \<Longrightarrow> rpc_result lib env net method h = PNone"
  by (simp add: rpc_result_def make_bitcoin_rpc_call_def)

lemma request_built_iff:
  "request_built lib env method h \<longleftrightarrow>
     (\<exists>request. build_request lib env method None (Some h) = Inr request)"
  by (cases "build_request lib env method None (Some h)") (simp_all add: request_built_def)

lemma rpc_result_by_method:
  assumes "\<And>request. method_of request = method \<Longrightarrow> net request = reply"
  shows "rpc_result lib env net method h =
     (if request_built lib env method h then
        (case reply of
           TransportError \<Rightarrow> PNone
         | Undecodable \<Rightarrow> PNone
         | Decoded doc \<Rightarrow> (case py_get doc ''result'' PNone of Inl e \<Rightarrow> PNone | Inr v \<Rightarrow> v))
      else PNone)"
proof (cases "build_request lib env method None (Some h)")
  case (Inl e)
  then show ?thesis
    by (simp add: rpc_result_not_built request_built_def)
next
  case (Inr request)
  then have "net request = reply"
    using assms build_request_method by blast
  with Inr show ?thesis
    by (simp add: rpc_result_built request_built_def)
qed

lemma node_answering_results:
  "request_built lib env method h \<Longrightarrow>
   rpc_result lib env (node_answering methods) method h =
     (if method \<in> set methods then
        (if method = ''getblockchaininfo'' then
           PDict [(''blocks'', PInt 800000), (''difficulty'', PFloat (Finite 55000000000000)),
                  (''verificationprogress'', PFloat (Finite 1))]
         else if method = ''getpeerinfo'' then
           PList [PDict [(''id'', PInt 0)], PDict [(''id'', PInt 1)]]
         else if method = ''getnetworkinfo'' then PDict [(''connections'', PInt 5)]
         else PNone)
      else PNone)"
  using rpc_result_by_method
          [of "method" "node_answering methods"
              "if method \<in> set methods then full_node_reply method else TransportError"
              lib env h]
  by (simp add: node_answering_def full_node_reply_def envelope_def)

lemma unreachable_node_results: "rpc_result lib env unreachable_node method h = PNone"
  using rpc_result_by_method [of "method" unreachable_node TransportError lib env h]
  by (simp add: unreachable_node_def)

lemma empty_info_node_results:
  "request_built lib env ''getblockchaininfo'' h
   \<Longrightarrow> rpc_result lib env empty_info_node ''getblockchaininfo'' h = PDict []"
  "rpc_result lib env empty_info_node ''getpeerinfo'' h = PNone"
  "rpc_result lib env empty_info_node ''getnetworkinfo'' h = PNone"
  using rpc_result_by_method
          [of "''getblockchaininfo''" empty_info_node "envelope (PDict [])" lib env h]
        rpc_result_by_method [of "''getpeerinfo''" empty_info_node TransportError lib env h]
        rpc_result_by_method [of "''getnetworkinfo''" empty_info_node TransportError lib env h]
  by (simp_all add: empty_info_node_def envelope_def)

lemma peer_number_node_results:
  "request_built lib env ''getblockchaininfo'' h
   \<Longrightarrow> rpc_result lib env peer_number_node ''getblockchaininfo'' h = PDict [(''blocks'', PInt 1)]"
  "request_built lib env ''getpeerinfo'' h
   \<Longrightarrow> rpc_result lib env peer_number_node ''getpeerinfo'' h = PInt 7"
  "rpc_result lib env peer_number_node ''getnetworkinfo'' h = PNone"
  using rpc_result_by_method
          [of "''getblockchaininfo''" peer_number_node
              "envelope (PDict [(''blocks'', PInt 1)])" lib env h]
        rpc_result_by_method
          [of "''getpeerinfo''" peer_number_node "envelope (PInt 7)" lib env h]
        rpc_result_by_method [of "''getnetworkinfo''" peer_number_node TransportError lib env h]
  by (simp_all add: peer_number_node_def envelope_def)

lemma two_line_node_results:
  "request_built lib env ''getblockchaininfo'' h
   \<Longrightarrow> rpc_result lib env two_line_node ''getblockchaininfo'' h
       = PDict [(''blocks'', PStr ''0\<newline>bitcoin_blocks 1'')]"
  "rpc_result lib env two_line_node ''getpeerinfo'' h = PNone"
  "rpc_result lib env two_line_node ''getnetworkinfo'' h = PNone"
  using rpc_result_by_method
          [of "''getblockchaininfo''" two_line_node
              "envelope (PDict [(''blocks'', PStr ''0\<newline>bitcoin_blocks 1'')])" lib env h]
        rpc_result_by_method [of "''getpeerinfo''" two_line_node TransportError lib env h]
        rpc_result_by_method [of "''getnetworkinfo''" two_line_node TransportError lib env h]
  by (simp_all add: two_line_node_def envelope_def)

lemma surrogate_node_results:
  "request_built lib env ''getblockchaininfo'' h
   \<Longrightarrow> rpc_result lib env surrogate_node ''getblockchaininfo'' h
       = PDict [(''blocks'', PStr [CHR 0xED, CHR 0xA0, CHR 0x80])]"
  "rpc_result lib env surrogate_node ''getpeerinfo'' h = PNone"
  "rpc_result lib env surrogate_node ''getnetworkinfo'' h = PNone"
  using rpc_result_by_method
          [of "''getblockchaininfo''" surrogate_node
              "envelope (PDict [(''blocks'', PStr [CHR 0xED, CHR 0xA0, CHR 0x80])])" lib env h]
        rpc_result_by_method [of "''getpeerinfo''" surrogate_node TransportError lib env h]
        rpc_result_by_method [of "''getnetworkinfo''" surrogate_node TransportError lib env h]
  by (simp_all add: surrogate_node_def envelope_def)

lemma overshoot_node_results:
  "request_built lib env ''getblockchaininfo'' h
   \<Longrightarrow> rpc_result lib env overshoot_node ''getblockchaininfo'' h =
       PDict [(''verificationprogress'', PFloat (Finite (3 / 2)))]"
  "rpc_result lib env overshoot_node ''getpeerinfo'' h = PNone"
  "rpc_result lib env overshoot_node ''getnetworkinfo'' h = PNone"
  using rpc_result_by_method
          [of "''getblockchaininfo''" overshoot_node
              "envelope (PDict [(''verificationprogress'', PFloat (Finite (3 / 2)))])" lib env h]
        rpc_result_by_method [of "''getpeerinfo''" overshoot_node TransportError lib env h]
        rpc_result_by_method [of "''getnetworkinfo''" overshoot_node TransportError lib env h]
  by (simp_all add: overshoot_node_def envelope_def)

lemma utf8_valid_ascii: "\<forall>c \<in> set s. (of_char c :: nat) < 128 \<Longrightarrow> utf8_valid s"
  by (induction s) simp_all

lemma no_bracket_matched:
  "CHR ''['' \<notin> set rest \<Longrightarrow> CHR '']'' \<notin> set rest \<Longrightarrow> \<not> unmatched_bracket (''http://'' @ rest)"
  by (auto simp: unmatched_bracket_def Let_def dest: set_takeWhileD)

lemma default_credentials: "utf8_valid (''bitcoin'' @ '':'' @ ''bitcoin'')"
  by (rule utf8_valid_ascii) simp

lemma build_request_sample:
  "build_request sample_lib Map.empty method params target =
     (if unmatched_bracket
           (''http://'' @ or_str target ''bitcoin-stack.bitcoin.svc.cluster.local'' @ '':'' @ ''18332'')
      then Inl (ValueError ''Invalid IPv6 URL'')
      else Inr \<lparr>url = ''http://'' @ or_str target ''bitcoin-stack.bitcoin.svc.cluster.local''
                        @ '':'' @ ''18332'',
                payload = PDict [(''jsonrpc'', PStr ''1.0''), (''id'', PStr ''exporter''),
                                 (''method'', PStr method),
                                 (''params'', PList (or_list params []))],
                content_type = ''application/json'',
                basic_auth = ''bitcoin'' @ '':'' @ ''bitcoin'',
                timeout = 10\<rparr>)"
  unfolding build_request_def Let_def getenv_def sample_lib_def
  by (simp only: default_credentials if_True option.case pylib.simps)

lemma sample_built:
  assumes "CHR ''['' \<notin> set h" and "CHR '']'' \<notin> set h"
  shows "request_built sample_lib Map.empty method h"
proof -
  have "\<not> unmatched_bracket
          (''http://'' @ or_str (Some h) ''bitcoin-stack.bitcoin.svc.cluster.local''
             @ '':'' @ ''18332'')"
    using assms by (intro no_bracket_matched) (auto simp: or_str_def)
  then show ?thesis
    unfolding request_built_def build_request_sample by (simp only: if_False sum.case)
qed

lemma bracket_host_unbuilt:
  "build_request sample_lib Map.empty method params (Some ''[::1'')
     = Inl (ValueError ''Invalid IPv6 URL'')"
  unfolding build_request_sample by (simp add: or_str_def unmatched_bracket_def)

lemma plain_host_built:
  "build_request sample_lib Map.empty ''getnetworkinfo'' None (Some ''a-0.a.b'')
     = Inr \<lparr>url = ''http://a-0.a.b:18332'',
            payload = PDict [(''jsonrpc'', PStr ''1.0''), (''id'', PStr ''exporter''),
                             (''method'', PStr ''getnetworkinfo''), (''params'', PList [])],
            content_type = ''application/json'', basic_auth = ''bitcoin:bitcoin'',
            timeout = 10\<rparr>"
  unfolding build_request_sample by (simp add: or_str_def or_list_def unmatched_bracket_def)

text \<open>
  C5, as stated, fails for a target host with an unmatched square bracket: the
  constructor of \<^verbatim>\<open>Request\<close> (line 41, inside the \<^verbatim>\<open>try\<close>) raises \<^verbatim>\<open>ValueError\<close>, the
  call returns \<^verbatim>\<open>None\<close>, and no request has reached \<^verbatim>\<open>urlopen\<close>: no attempt instead of
  one, although the node would have answered.
\<close>

theorem make_bitcoin_rpc_call_one_attempt_counterexample:
  "snd (make_bitcoin_rpc_call sample_lib Map.empty (node_answering [''getblockchaininfo''])
          ''getblockchaininfo'' None (Some ''[::1'')) = []
   \<and> fst (make_bitcoin_rpc_call sample_lib Map.empty (node_answering [''getblockchaininfo''])
          ''getblockchaininfo'' None (Some ''[::1'')) = PNone"
  by (simp add: make_bitcoin_rpc_call_def bracket_host_unbuilt)

text \<open>
  C5, amended. For every method name, parameter list and target host,
  \<^verbatim>\<open>make_bitcoin_rpc_call\<close> returns a value in every case (every exception is caught)
  and hands at most one request to \<^verbatim>\<open>urlopen\<close>: exactly one when the request can be
  built, that is, when \<^verbatim>\<open>json.dumps\<close> does not raise, the URL passes the checks of
  \<^verbatim>\<open>Request\<close> and the credentials can be encoded, and none otherwise, in which case it
  returns \<^verbatim>\<open>None\<close>. With a request made it returns \<^verbatim>\<open>None\<close> when the transport fails or
  the body cannot be decoded, the \<^verbatim>\<open>result\<close> field of the decoded envelope when there
  is one, and \<^verbatim>\<open>None\<close> when the envelope has no such field or is not a mapping at all.
\<close>

theorem make_bitcoin_rpc_call_at_most_one_attempt:
  "(\<forall>e. build_request lib env method params target_host = Inl e
       \<longrightarrow> make_bitcoin_rpc_call lib env net method params target_host = (PNone, []))
   \<and> (\<forall>request. build_request lib env method params target_host = Inr request
       \<longrightarrow> snd (make_bitcoin_rpc_call lib env net method params target_host) = [request]
         \<and> (net request = TransportError \<or> net request = Undecodable
              \<longrightarrow> fst (make_bitcoin_rpc_call lib env net method params target_host) = PNone)
         \<and> (\<forall>kvs v. net request = Decoded (PDict kvs) \<and> map_of kvs ''result'' = Some v
              \<longrightarrow> fst (make_bitcoin_rpc_call lib env net method params target_host) = v)
         \<and> (\<forall>kvs. net request = Decoded (PDict kvs) \<and> map_of kvs ''result'' = None
              \<longrightarrow> fst (make_bitcoin_rpc_call lib env net method params target_host) = PNone)
         \<and> (\<forall>doc. net request = Decoded doc \<and> \<not> is_dict doc
              \<longrightarrow> fst (make_bitcoin_rpc_call lib env net method params target_host) = PNone))
   \<and> length (snd (make_bitcoin_rpc_call lib env net method params target_host)) \<le> 1
   \<and> ((\<exists>request. build_request lib env method params target_host = Inr request) \<longleftrightarrow>
        dumps_raises lib
          (PDict [(''jsonrpc'', PStr ''1.0''), (''id'', PStr ''exporter''),
                  (''method'', PStr method), (''params'', PList (or_list params []))]) = None
        \<and> \<not> unmatched_bracket
             (''http://''
              @ or_str target_host
                  (getenv env ''BITCOIN_HOST'' ''bitcoin-stack.bitcoin.svc.cluster.local'')
              @ '':'' @ getenv env ''BITCOIN_PORT'' ''18332'')
        \<and> url_refused lib
             (''http://''
              @ or_str target_host
                  (getenv env ''BITCOIN_HOST'' ''bitcoin-stack.bitcoin.svc.cluster.local'')
              @ '':'' @ getenv env ''BITCOIN_PORT'' ''18332'') = None
        \<and> utf8_valid (getenv env ''BITCOIN_USER'' ''bitcoin'' @ '':''
                       @ getenv env ''BITCOIN_PASSWORD'' ''bitcoin''))"
proof (intro conjI allI impI)
  fix e
  assume "build_request lib env method params target_host = Inl e"
  then show "make_bitcoin_rpc_call lib env net method params target_host = (PNone, [])"
    by (simp add: make_bitcoin_rpc_call_def)
next
  fix request
  assume built: "build_request lib env method params target_host = Inr request"
  have res: "fst (make_bitcoin_rpc_call lib env net method params target_host) =
      (case net request of
         TransportError \<Rightarrow> PNone
       | Undecodable \<Rightarrow> PNone
       | Decoded doc \<Rightarrow> (case py_get doc ''result'' PNone of Inl e \<Rightarrow> PNone | Inr v \<Rightarrow> v))"
    by (simp add: make_bitcoin_rpc_call_def built)
  show "snd (make_bitcoin_rpc_call lib env net method params target_host) = [request]"
    by (simp add: make_bitcoin_rpc_call_def built)
  show "fst (make_bitcoin_rpc_call lib env net method params target_host) = PNone"
    if "net request = TransportError \<or> net request = Undecodable"
    using that by (auto simp: res)
  show "fst (make_bitcoin_rpc_call lib env net method params target_host) = v"
    if "net request = Decoded (PDict kvs) \<and> map_of kvs ''result'' = Some v" for kvs v
    using that by (simp add: res)
  show "fst (make_bitcoin_rpc_call lib env net method params target_host) = PNone"
    if "net request = Decoded (PDict kvs) \<and> map_of kvs ''result'' = None" for kvs
    using that by (simp add: res)
  show "fst (make_bitcoin_rpc_call lib env net method params target_host) = PNone"
    if "net request = Decoded doc \<and> \<not> is_dict doc" for doc
    using that by (cases doc) (simp_all add: res is_dict_def)
next
  show "length (snd (make_bitcoin_rpc_call lib env net method params target_host)) \<le> 1"
    by (cases "build_request lib env method params target_host")
       (simp_all add: make_bitcoin_rpc_call_def)
next
  show "(\<exists>request. build_request lib env method params target_host = Inr request) \<longleftrightarrow>
        dumps_raises lib
          (PDict [(''jsonrpc'', PStr ''1.0''), (''id'', PStr ''exporter''),
                  (''method'', PStr method), (''params'', PList (or_list params []))]) = None
        \<and> \<not> unmatched_bracket
             (''http://''
              @ or_str target_host
                  (getenv env ''BITCOIN_HOST'' ''bitcoin-stack.bitcoin.svc.cluster.local'')
              @ '':'' @ getenv env ''BITCOIN_PORT'' ''18332'')
        \<and> url_refused lib
             (''http://''
              @ or_str target_host
                  (getenv env ''BITCOIN_HOST'' ''bitcoin-stack.bitcoin.svc.cluster.local'')
              @ '':'' @ getenv env ''BITCOIN_PORT'' ''18332'') = None
        \<and> utf8_valid (getenv env ''BITCOIN_USER'' ''bitcoin'' @ '':''
                       @ getenv env ''BITCOIN_PASSWORD'' ''bitcoin'')"
    unfolding build_request_def Let_def
    by (auto split: option.splits if_splits)
qed

theorem make_bitcoin_rpc_call_at_most_one_attempt_witness:
  "build_request sample_lib Map.empty ''getnetworkinfo'' None (Some ''a-0.a.b'')
     = Inr \<lparr>url = ''http://a-0.a.b:18332'',
            payload = PDict [(''jsonrpc'', PStr ''1.0''), (''id'', PStr ''exporter''),
                             (''method'', PStr ''getnetworkinfo''), (''params'', PList [])],
            content_type = ''application/json'', basic_auth = ''bitcoin:bitcoin'',
            timeout = 10\<rparr>
   \<and> snd (make_bitcoin_rpc_call sample_lib Map.empty (node_answering [''getnetworkinfo''])
          ''getnetworkinfo'' None (Some ''a-0.a.b''))
     = [\<lparr>url = ''http://a-0.a.b:18332'',
          payload = PDict [(''jsonrpc'', PStr ''1.0''), (''id'', PStr ''exporter''),
                           (''method'', PStr ''getnetworkinfo''), (''params'', PList [])],
          content_type = ''application/json'', basic_auth = ''bitcoin:bitcoin'',
          timeout = 10\<rparr>]
   \<and> fst (make_bitcoin_rpc_call sample_lib Map.empty (node_answering [''getnetworkinfo''])
          ''getnetworkinfo'' None (Some ''a-0.a.b''))
     = PDict [(''connections'', PInt 5)]
   \<and> fst (make_bitcoin_rpc_call sample_lib Map.empty unreachable_node
          ''getnetworkinfo'' None (Some ''a-0.a.b'')) = PNone
   \<and> build_request sample_lib Map.empty ''getnetworkinfo'' None (Some ''[::1'')
     = Inl (ValueError ''Invalid IPv6 URL'')
   \<and> make_bitcoin_rpc_call sample_lib Map.empty (node_answering [''getnetworkinfo''])
          ''getnetworkinfo'' None (Some ''[::1'') = (PNone, [])"
proof -
  let ?request = "\<lparr>url = ''http://a-0.a.b:18332'',
          payload = PDict [(''jsonrpc'', PStr ''1.0''), (''id'', PStr ''exporter''),
                           (''method'', PStr ''getnetworkinfo''), (''params'', PList [])],
          content_type = ''application/json'', basic_auth = ''bitcoin:bitcoin'',
          timeout = 10\<rparr>"
  let ?node = "node_answering [''getnetworkinfo'']"
  have answer: "?node ?request
      = Decoded (PDict [(''result'', PDict [(''connections'', PInt 5)]), (''error'', PNone),
                        (''id'', PStr ''exporter'')])"
    by (simp add: node_answering_def method_of_def full_node_reply_def envelope_def)
  have lookup: "map_of [(''result'', PDict [(''connections'', PInt 5)]), (''error'', PNone),
                        (''id'', PStr ''exporter'')] ''result''
      = Some (PDict [(''connections'', PInt 5)])"
    by simp
  have silent: "unreachable_node ?request = TransportError"
    by (simp add: unreachable_node_def)
  note live = make_bitcoin_rpc_call_at_most_one_attempt
                [of sample_lib Map.empty "''getnetworkinfo''" None "Some ''a-0.a.b''" ?node]
  note dead = make_bitcoin_rpc_call_at_most_one_attempt
                [of sample_lib Map.empty "''getnetworkinfo''" None "Some ''a-0.a.b''"
                    unreachable_node]
  note none = make_bitcoin_rpc_call_at_most_one_attempt
                [of sample_lib Map.empty "''getnetworkinfo''" None "Some ''[::1''" ?node]
  from live plain_host_built have
    "snd (make_bitcoin_rpc_call sample_lib Map.empty ?node
            ''getnetworkinfo'' None (Some ''a-0.a.b'')) = [?request]"
    by blast
  moreover from live plain_host_built answer lookup have
    "fst (make_bitcoin_rpc_call sample_lib Map.empty ?node
            ''getnetworkinfo'' None (Some ''a-0.a.b'')) = PDict [(''connections'', PInt 5)]"
    by blast
  moreover from dead plain_host_built silent have
    "fst (make_bitcoin_rpc_call sample_lib Map.empty unreachable_node
            ''getnetworkinfo'' None (Some ''a-0.a.b'')) = PNone"
    by blast
  moreover from none bracket_host_unbuilt have
    "make_bitcoin_rpc_call sample_lib Map.empty ?node
            ''getnetworkinfo'' None (Some ''[::1'') = (PNone, [])"
    by blast
  ultimately show ?thesis
    using plain_host_built bracket_host_unbuilt by blast
qed

section \<open>Proofs: the collector\<close>

lemma py_get_if:
  "py_get v key (PInt 0) =
     (if is_dict v then Inr (field_or_zero v key)
      else Inl (AttributeError ([CHR 0x27] @ type_name v @ [CHR 0x27]
                  @ '' object has no attribute '' @ [CHR 0x27] @ ''get'' @ [CHR 0x27])))"
  by (cases v) (simp_all add: is_dict_def field_or_zero_def)

lemma py_len_if:
  "py_len v =
     (if is_sized v then Inr (size_or_zero v)
      else Inl (TypeError (''object of type '' @ [CHR 0x27] @ type_name v @ [CHR 0x27]
                  @ '' has no len()'')))"
  by (cases v) (simp_all add: is_sized_def size_or_zero_def)

lemma falsy_field_or_zero: "\<not> truthy v \<Longrightarrow> field_or_zero v key = PInt 0"
  by (cases v) (simp_all add: field_or_zero_def)

lemma falsy_size_or_zero: "\<not> truthy v \<Longrightarrow> size_or_zero v = 0"
  by (cases v) (simp_all add: size_or_zero_def code_points_def)

lemma field_or_zero_None [simp]: "field_or_zero PNone key = PInt 0"
  by (simp add: field_or_zero_def)

lemma size_or_zero_None [simp]: "size_or_zero PNone = 0"
  by (simp add: size_or_zero_def)

lemma extractable_None:
  "extractable d p n \<Longrightarrow> extractable PNone p n"
  "extractable d p n \<Longrightarrow> extractable d PNone n"
  "extractable d p n \<Longrightarrow> extractable d p PNone"
  by (simp_all add: extractable_def)

text \<open>The \<^verbatim>\<open>try\<close> block ends normally exactly when the three results are extractable.\<close>

lemma get_pod_metrics_try_eq:
  "get_pod_metrics_try lib env net h =
    (let data = rpc_result lib env net ''getblockchaininfo'' h;
         peers' = rpc_result lib env net ''getpeerinfo'' h;
         network_data = rpc_result lib env net ''getnetworkinfo'' h
     in if truthy data \<and> \<not> is_dict data then
          Inl (AttributeError ([CHR 0x27] @ type_name data @ [CHR 0x27]
                 @ '' object has no attribute '' @ [CHR 0x27] @ ''get'' @ [CHR 0x27]))
        else if truthy peers' \<and> \<not> is_sized peers' then
          Inl (TypeError (''object of type '' @ [CHR 0x27] @ type_name peers' @ [CHR 0x27]
                 @ '' has no len()''))
        else if truthy network_data \<and> \<not> is_dict network_data then
          Inl (AttributeError ([CHR 0x27] @ type_name network_data @ [CHR 0x27]
                 @ '' object has no attribute '' @ [CHR 0x27] @ ''get'' @ [CHR 0x27]))
        else Inr \<lparr>pod = pod_name_of h, host = h,
                  blocks = field_or_zero data ''blocks'',
                  peers = size_or_zero peers',
                  connections = field_or_zero network_data ''connections'',
                  difficulty = field_or_zero data ''difficulty'',
                  verification_progress = field_or_zero data ''verificationprogress'',
                  healthy = (data \<noteq> PNone)\<rparr>)"
  unfolding get_pod_metrics_try_def Let_def and_then_def py_get_if py_len_if
  by (simp add: falsy_field_or_zero falsy_size_or_zero)

lemma get_pod_metrics_try_Inr_iff:
  "(\<exists>m. get_pod_metrics_try lib env net h = Inr m) \<longleftrightarrow>
     extractable (rpc_result lib env net ''getblockchaininfo'' h)
       (rpc_result lib env net ''getpeerinfo'' h) (rpc_result lib env net ''getnetworkinfo'' h)"
  unfolding get_pod_metrics_try_eq Let_def extractable_def by auto

lemma get_pod_metrics_eq:
  "get_pod_metrics lib env net h =
    (let data = rpc_result lib env net ''getblockchaininfo'' h;
         peers' = rpc_result lib env net ''getpeerinfo'' h;
         network_data = rpc_result lib env net ''getnetworkinfo'' h
     in if extractable data peers' network_data then
          \<lparr>pod = pod_name_of h, host = h,
           blocks = field_or_zero data ''blocks'',
           peers = size_or_zero peers',
           connections = field_or_zero network_data ''connections'',
           difficulty = field_or_zero data ''difficulty'',
           verification_progress = field_or_zero data ''verificationprogress'',
           healthy = (data \<noteq> PNone)\<rparr>
        else zero_record h)"
  unfolding get_pod_metrics_def get_pod_metrics_try_eq Let_def extractable_def zero_record_def
  by auto

lemma get_pod_metrics_host [simp]: "host (get_pod_metrics lib env net h) = h"
  by (simp add: get_pod_metrics_eq Let_def zero_record_def)

lemma get_pod_metrics_pod [simp]: "pod (get_pod_metrics lib env net h) = pod_name_of h"
  by (simp add: get_pod_metrics_eq Let_def zero_record_def)

lemma get_pod_metrics_of_try:
  "get_pod_metrics_try lib env net h = Inr m \<Longrightarrow> get_pod_metrics lib env net h = m"
  by (simp add: get_pod_metrics_def)

lemma built_example_hosts:
  "request_built sample_lib Map.empty method ''a-0.a.b''"
  "request_built sample_lib Map.empty method ''a-1.a.b''"
  "request_built sample_lib Map.empty method
     ''bitcoin-stack-0.bitcoin-stack.bitcoin.svc.cluster.local''"
  by (simp_all add: sample_built)

lemma full_node_record:
  assumes "\<And>method. request_built lib env method h"
  shows "get_pod_metrics lib env
     (node_answering [''getblockchaininfo'', ''getpeerinfo'', ''getnetworkinfo'']) h =
   \<lparr>pod = pod_name_of h, host = h, blocks = PInt 800000, peers = 2, connections = PInt 5,
    difficulty = PFloat (Finite 55000000000000),
    verification_progress = PFloat (Finite 1), healthy = True\<rparr>"
  by (simp add: get_pod_metrics_def get_pod_metrics_try_def and_then_def
        node_answering_results assms code_points_def)

text \<open>
  C2. \<^verbatim>\<open>get_pod_metrics\<close> returns a record for every pod, whatever the three calls do
  (an exception in the \<^verbatim>\<open>try\<close> block ends in the zero record). When all three calls
  return \<^verbatim>\<open>None\<close> the record has blocks, peers, connections, difficulty and
  verification progress 0 and is not healthy. A failed chain call zeroes blocks,
  difficulty and progress and clears the health flag; a failed peer call zeroes the peer
  count; a failed network call zeroes the connection count. The failure of one call
  touches nothing else: with one call failed the record is the zero record if the
  result of one of the other two calls makes its extraction raise, and otherwise holds
  zeros in the fields of the failed call and, in every other field, what the other two
  results give. Against a run in which that call returned a result its extraction can
  handle and the other two calls return the same, the run in which it fails differs in
  exactly the fields that call feeds.
\<close>

theorem get_pod_metrics_degrades_gracefully:
  "(rpc_result lib env net ''getblockchaininfo'' h = PNone
      \<and> rpc_result lib env net ''getpeerinfo'' h = PNone
      \<and> rpc_result lib env net ''getnetworkinfo'' h = PNone
    \<longrightarrow> get_pod_metrics lib env net h =
          \<lparr>pod = pod_name_of h, host = h, blocks = PInt 0, peers = 0,
           connections = PInt 0, difficulty = PInt 0, verification_progress = PInt 0,
           healthy = False\<rparr>)
   \<and> (rpc_result lib env net ''getblockchaininfo'' h = PNone
    \<longrightarrow> blocks (get_pod_metrics lib env net h) = PInt 0
        \<and> difficulty (get_pod_metrics lib env net h) = PInt 0
        \<and> verification_progress (get_pod_metrics lib env net h) = PInt 0
        \<and> \<not> healthy (get_pod_metrics lib env net h))
   \<and> (rpc_result lib env net ''getpeerinfo'' h = PNone
    \<longrightarrow> peers (get_pod_metrics lib env net h) = 0)
   \<and> (rpc_result lib env net ''getnetworkinfo'' h = PNone
    \<longrightarrow> connections (get_pod_metrics lib env net h) = PInt 0)
   \<and> (rpc_result lib env net ''getblockchaininfo'' h = PNone
    \<longrightarrow> get_pod_metrics lib env net h =
          (if extractable PNone (rpc_result lib env net ''getpeerinfo'' h)
                (rpc_result lib env net ''getnetworkinfo'' h)
           then \<lparr>pod = pod_name_of h, host = h, blocks = PInt 0,
                  peers = size_or_zero (rpc_result lib env net ''getpeerinfo'' h),
                  connections =
                    field_or_zero (rpc_result lib env net ''getnetworkinfo'' h) ''connections'',
                  difficulty = PInt 0, verification_progress = PInt 0, healthy = False\<rparr>
           else zero_record h))
   \<and> (rpc_result lib env net ''getpeerinfo'' h = PNone
    \<longrightarrow> get_pod_metrics lib env net h =
          (if extractable (rpc_result lib env net ''getblockchaininfo'' h) PNone
                (rpc_result lib env net ''getnetworkinfo'' h)
           then \<lparr>pod = pod_name_of h, host = h,
                  blocks = field_or_zero (rpc_result lib env net ''getblockchaininfo'' h) ''blocks'',
                  peers = 0,
                  connections =
                    field_or_zero (rpc_result lib env net ''getnetworkinfo'' h) ''connections'',
                  difficulty =
                    field_or_zero (rpc_result lib env net ''getblockchaininfo'' h) ''difficulty'',
                  verification_progress =
                    field_or_zero (rpc_result lib env net ''getblockchaininfo'' h)
                      ''verificationprogress'',
                  healthy = (rpc_result lib env net ''getblockchaininfo'' h \<noteq> PNone)\<rparr>
           else zero_record h))
   \<and> (rpc_result lib env net ''getnetworkinfo'' h = PNone
    \<longrightarrow> get_pod_metrics lib env net h =
          (if extractable (rpc_result lib env net ''getblockchaininfo'' h)
                (rpc_result lib env net ''getpeerinfo'' h) PNone
           then \<lparr>pod = pod_name_of h, host = h,
                  blocks = field_or_zero (rpc_result lib env net ''getblockchaininfo'' h) ''blocks'',
                  peers = size_or_zero (rpc_result lib env net ''getpeerinfo'' h),
                  connections = PInt 0,
                  difficulty =
                    field_or_zero (rpc_result lib env net ''getblockchaininfo'' h) ''difficulty'',
                  verification_progress =
                    field_or_zero (rpc_result lib env net ''getblockchaininfo'' h)
                      ''verificationprogress'',
                  healthy = (rpc_result lib env net ''getblockchaininfo'' h \<noteq> PNone)\<rparr>
           else zero_record h))
   \<and> (\<forall>net'. (truthy (rpc_result lib env net ''getblockchaininfo'' h)
                \<longrightarrow> is_dict (rpc_result lib env net ''getblockchaininfo'' h))
        \<and> rpc_result lib env net' ''getblockchaininfo'' h = PNone
        \<and> rpc_result lib env net' ''getpeerinfo'' h = rpc_result lib env net ''getpeerinfo'' h
        \<and> rpc_result lib env net' ''getnetworkinfo'' h
           = rpc_result lib env net ''getnetworkinfo'' h
    \<longrightarrow> get_pod_metrics lib env net' h =
          (get_pod_metrics lib env net h)
            \<lparr>blocks := PInt 0, difficulty := PInt 0, verification_progress := PInt 0,
             healthy := False\<rparr>)
   \<and> (\<forall>net'. (truthy (rpc_result lib env net ''getpeerinfo'' h)
                \<longrightarrow> is_sized (rpc_result lib env net ''getpeerinfo'' h))
        \<and> rpc_result lib env net' ''getblockchaininfo'' h
           = rpc_result lib env net ''getblockchaininfo'' h
        \<and> rpc_result lib env net' ''getpeerinfo'' h = PNone
        \<and> rpc_result lib env net' ''getnetworkinfo'' h
           = rpc_result lib env net ''getnetworkinfo'' h
    \<longrightarrow> get_pod_metrics lib env net' h = (get_pod_metrics lib env net h)\<lparr>peers := 0\<rparr>)
   \<and> (\<forall>net'. (truthy (rpc_result lib env net ''getnetworkinfo'' h)
                \<longrightarrow> is_dict (rpc_result lib env net ''getnetworkinfo'' h))
        \<and> rpc_result lib env net' ''getblockchaininfo'' h
           = rpc_result lib env net ''getblockchaininfo'' h
        \<and> rpc_result lib env net' ''getpeerinfo'' h = rpc_result lib env net ''getpeerinfo'' h
        \<and> rpc_result lib env net' ''getnetworkinfo'' h = PNone
    \<longrightarrow> get_pod_metrics lib env net' h
        = (get_pod_metrics lib env net h)\<lparr>connections := PInt 0\<rparr>)"
proof (intro conjI impI allI)
  assume "rpc_result lib env net ''getblockchaininfo'' h = PNone
      \<and> rpc_result lib env net ''getpeerinfo'' h = PNone
      \<and> rpc_result lib env net ''getnetworkinfo'' h = PNone"
  then show "get_pod_metrics lib env net h =
          \<lparr>pod = pod_name_of h, host = h, blocks = PInt 0, peers = 0,
           connections = PInt 0, difficulty = PInt 0, verification_progress = PInt 0,
           healthy = False\<rparr>"
    by (simp add: get_pod_metrics_eq Let_def extractable_def)
next
  assume a: "rpc_result lib env net ''getblockchaininfo'' h = PNone"
  show "blocks (get_pod_metrics lib env net h) = PInt 0"
    and "difficulty (get_pod_metrics lib env net h) = PInt 0"
    and "verification_progress (get_pod_metrics lib env net h) = PInt 0"
    and "\<not> healthy (get_pod_metrics lib env net h)"
    by (simp_all add: a get_pod_metrics_eq Let_def zero_record_def)
next
  assume "rpc_result lib env net ''getpeerinfo'' h = PNone"
  then show "peers (get_pod_metrics lib env net h) = 0"
    by (simp add: get_pod_metrics_eq Let_def zero_record_def)
next
  assume "rpc_result lib env net ''getnetworkinfo'' h = PNone"
  then show "connections (get_pod_metrics lib env net h) = PInt 0"
    by (simp add: get_pod_metrics_eq Let_def zero_record_def)
next
  assume "rpc_result lib env net ''getblockchaininfo'' h = PNone"
  then show "get_pod_metrics lib env net h =
          (if extractable PNone (rpc_result lib env net ''getpeerinfo'' h)
                (rpc_result lib env net ''getnetworkinfo'' h)
           then \<lparr>pod = pod_name_of h, host = h, blocks = PInt 0,
                  peers = size_or_zero (rpc_result lib env net ''getpeerinfo'' h),
                  connections =
                    field_or_zero (rpc_result lib env net ''getnetworkinfo'' h) ''connections'',
                  difficulty = PInt 0, verification_progress = PInt 0, healthy = False\<rparr>
           else zero_record h)"
    by (simp add: get_pod_metrics_eq Let_def)
next
  assume "rpc_result lib env net ''getpeerinfo'' h = PNone"
  then show "get_pod_metrics lib env net h =
          (if extractable (rpc_result lib env net ''getblockchaininfo'' h) PNone
                (rpc_result lib env net ''getnetworkinfo'' h)
           then \<lparr>pod = pod_name_of h, host = h,
                  blocks = field_or_zero (rpc_result lib env net ''getblockchaininfo'' h) ''blocks'',
                  peers = 0,
                  connections =
                    field_or_zero (rpc_result lib env net ''getnetworkinfo'' h) ''connections'',
                  difficulty =
                    field_or_zero (rpc_result lib env net ''getblockchaininfo'' h) ''difficulty'',
                  verification_progress =
                    field_or_zero (rpc_result lib env net ''getblockchaininfo'' h)
                      ''verificationprogress'',
                  healthy = (rpc_result lib env net ''getblockchaininfo'' h \<noteq> PNone)\<rparr>
           else zero_record h)"
    by (simp add: get_pod_metrics_eq Let_def)
next
  assume "rpc_result lib env net ''getnetworkinfo'' h = PNone"
  then show "get_pod_metrics lib env net h =
          (if extractable (rpc_result lib env net ''getblockchaininfo'' h)
                (rpc_result lib env net ''getpeerinfo'' h) PNone
           then \<lparr>pod = pod_name_of h, host = h,
                  blocks = field_or_zero (rpc_result lib env net ''getblockchaininfo'' h) ''blocks'',
                  peers = size_or_zero (rpc_result lib env net ''getpeerinfo'' h),
                  connections = PInt 0,
                  difficulty =
                    field_or_zero (rpc_result lib env net ''getblockchaininfo'' h) ''difficulty'',
                  verification_progress =
                    field_or_zero (rpc_result lib env net ''getblockchaininfo'' h)
                      ''verificationprogress'',
                  healthy = (rpc_result lib env net ''getblockchaininfo'' h \<noteq> PNone)\<rparr>
           else zero_record h)"
    by (simp add: get_pod_metrics_eq Let_def)
next
  fix net'
  assume "(truthy (rpc_result lib env net ''getblockchaininfo'' h)
                \<longrightarrow> is_dict (rpc_result lib env net ''getblockchaininfo'' h))
        \<and> rpc_result lib env net' ''getblockchaininfo'' h = PNone
        \<and> rpc_result lib env net' ''getpeerinfo'' h = rpc_result lib env net ''getpeerinfo'' h
        \<and> rpc_result lib env net' ''getnetworkinfo'' h
           = rpc_result lib env net ''getnetworkinfo'' h"
  then show "get_pod_metrics lib env net' h =
          (get_pod_metrics lib env net h)
            \<lparr>blocks := PInt 0, difficulty := PInt 0, verification_progress := PInt 0,
             healthy := False\<rparr>"
    by (simp add: get_pod_metrics_eq Let_def extractable_def zero_record_def)
next
  fix net'
  assume "(truthy (rpc_result lib env net ''getpeerinfo'' h)
                \<longrightarrow> is_sized (rpc_result lib env net ''getpeerinfo'' h))
        \<and> rpc_result lib env net' ''getblockchaininfo'' h
           = rpc_result lib env net ''getblockchaininfo'' h
        \<and> rpc_result lib env net' ''getpeerinfo'' h = PNone
        \<and> rpc_result lib env net' ''getnetworkinfo'' h
           = rpc_result lib env net ''getnetworkinfo'' h"
  then show "get_pod_metrics lib env net' h = (get_pod_metrics lib env net h)\<lparr>peers := 0\<rparr>"
    by (simp add: get_pod_metrics_eq Let_def extractable_def zero_record_def)
next
  fix net'
  assume "(truthy (rpc_result lib env net ''getnetworkinfo'' h)
                \<longrightarrow> is_dict (rpc_result lib env net ''getnetworkinfo'' h))
        \<and> rpc_result lib env net' ''getblockchaininfo'' h
           = rpc_result lib env net ''getblockchaininfo'' h
        \<and> rpc_result lib env net' ''getpeerinfo'' h = rpc_result lib env net ''getpeerinfo'' h
        \<and> rpc_result lib env net' ''getnetworkinfo'' h = PNone"
  then show "get_pod_metrics lib env net' h
        = (get_pod_metrics lib env net h)\<lparr>connections := PInt 0\<rparr>"
    by (simp add: get_pod_metrics_eq Let_def extractable_def zero_record_def)
qed

theorem get_pod_metrics_degrades_gracefully_witness:
  "get_pod_metrics sample_lib Map.empty unreachable_node ''a-1.a.b'' =
     \<lparr>pod = ''a-1'', host = ''a-1.a.b'', blocks = PInt 0, peers = 0, connections = PInt 0,
      difficulty = PInt 0, verification_progress = PInt 0, healthy = False\<rparr>
   \<and> get_pod_metrics sample_lib Map.empty
         (node_answering [''getblockchaininfo'', ''getpeerinfo'', ''getnetworkinfo'']) ''a-0.a.b''
       = \<lparr>pod = ''a-0'', host = ''a-0.a.b'', blocks = PInt 800000, peers = 2,
          connections = PInt 5, difficulty = PFloat (Finite 55000000000000),
          verification_progress = PFloat (Finite 1), healthy = True\<rparr>
   \<and> get_pod_metrics sample_lib Map.empty (node_answering [''getpeerinfo'', ''getnetworkinfo''])
         ''a-0.a.b''
       = \<lparr>pod = ''a-0'', host = ''a-0.a.b'', blocks = PInt 0, peers = 2,
          connections = PInt 5, difficulty = PInt 0, verification_progress = PInt 0,
          healthy = False\<rparr>
   \<and> get_pod_metrics sample_lib Map.empty
         (node_answering [''getblockchaininfo'', ''getnetworkinfo'']) ''a-0.a.b''
       = \<lparr>pod = ''a-0'', host = ''a-0.a.b'', blocks = PInt 800000, peers = 0,
          connections = PInt 5, difficulty = PFloat (Finite 55000000000000),
          verification_progress = PFloat (Finite 1), healthy = True\<rparr>
   \<and> get_pod_metrics sample_lib Map.empty
         (node_answering [''getblockchaininfo'', ''getpeerinfo'']) ''a-0.a.b''
       = \<lparr>pod = ''a-0'', host = ''a-0.a.b'', blocks = PInt 800000, peers = 2,
          connections = PInt 0, difficulty = PFloat (Finite 55000000000000),
          verification_progress = PFloat (Finite 1), healthy = True\<rparr>
   \<and> rpc_result sample_lib Map.empty peer_number_node ''getpeerinfo'' ''a-0.a.b'' = PInt 7
   \<and> rpc_result sample_lib Map.empty peer_number_node ''getnetworkinfo'' ''a-0.a.b'' = PNone
   \<and> get_pod_metrics sample_lib Map.empty peer_number_node ''a-0.a.b''
       = \<lparr>pod = ''a-0'', host = ''a-0.a.b'', blocks = PInt 0, peers = 0, connections = PInt 0,
          difficulty = PInt 0, verification_progress = PInt 0, healthy = False\<rparr>"
proof -
  let ?full = "node_answering [''getblockchaininfo'', ''getpeerinfo'', ''getnetworkinfo'']"
  have full: "get_pod_metrics sample_lib Map.empty ?full ''a-0.a.b''
       = \<lparr>pod = ''a-0'', host = ''a-0.a.b'', blocks = PInt 800000, peers = 2,
          connections = PInt 5, difficulty = PFloat (Finite 55000000000000),
          verification_progress = PFloat (Finite 1), healthy = True\<rparr>"
    by (simp add: full_node_record built_example_hosts pod_name_of_def)
  note dead = get_pod_metrics_degrades_gracefully
                [of sample_lib Map.empty unreachable_node "''a-1.a.b''"]
  note live = get_pod_metrics_degrades_gracefully [of sample_lib Map.empty ?full "''a-0.a.b''"]
  note odd = get_pod_metrics_degrades_gracefully
               [of sample_lib Map.empty peer_number_node "''a-0.a.b''"]
  from live have
    "get_pod_metrics sample_lib Map.empty (node_answering [''getpeerinfo'', ''getnetworkinfo''])
         ''a-0.a.b''
       = \<lparr>pod = ''a-0'', host = ''a-0.a.b'', blocks = PInt 0, peers = 2,
          connections = PInt 5, difficulty = PInt 0, verification_progress = PInt 0,
          healthy = False\<rparr>"
    by (simp add: node_answering_results built_example_hosts is_dict_def is_sized_def full)
  moreover from live have
    "get_pod_metrics sample_lib Map.empty
         (node_answering [''getblockchaininfo'', ''getnetworkinfo'']) ''a-0.a.b''
       = \<lparr>pod = ''a-0'', host = ''a-0.a.b'', blocks = PInt 800000, peers = 0,
          connections = PInt 5, difficulty = PFloat (Finite 55000000000000),
          verification_progress = PFloat (Finite 1), healthy = True\<rparr>"
    by (simp add: node_answering_results built_example_hosts is_dict_def is_sized_def full)
  moreover from live have
    "get_pod_metrics sample_lib Map.empty
         (node_answering [''getblockchaininfo'', ''getpeerinfo'']) ''a-0.a.b''
       = \<lparr>pod = ''a-0'', host = ''a-0.a.b'', blocks = PInt 800000, peers = 2,
          connections = PInt 0, difficulty = PFloat (Finite 55000000000000),
          verification_progress = PFloat (Finite 1), healthy = True\<rparr>"
    by (simp add: node_answering_results built_example_hosts is_dict_def is_sized_def full)
  moreover from dead have
    "get_pod_metrics sample_lib Map.empty unreachable_node ''a-1.a.b'' =
     \<lparr>pod = ''a-1'', host = ''a-1.a.b'', blocks = PInt 0, peers = 0, connections = PInt 0,
      difficulty = PInt 0, verification_progress = PInt 0, healthy = False\<rparr>"
    by (simp add: unreachable_node_results pod_name_of_def)
  moreover from odd have
    "get_pod_metrics sample_lib Map.empty peer_number_node ''a-0.a.b''
       = \<lparr>pod = ''a-0'', host = ''a-0.a.b'', blocks = PInt 0, peers = 0, connections = PInt 0,
          difficulty = PInt 0, verification_progress = PInt 0, healthy = False\<rparr>"
    by (simp add: peer_number_node_results built_example_hosts extractable_def is_sized_def
          zero_record_def pod_name_of_def)
  ultimately show ?thesis
    using full by (simp add: peer_number_node_results built_example_hosts)
qed

text \<open>
  C3, as stated, fails when a result has a type its extraction cannot handle. The node
  below answers the chain call with a mapping and the peer call with the number 7:
  \<^verbatim>\<open>len(7)\<close> raises \<^verbatim>\<open>TypeError\<close>, the \<^verbatim>\<open>except\<close> branch returns, and the record is
  unhealthy although the chain call returned a result.
\<close>

theorem healthy_iff_blockchain_info_present_counterexample:
  "rpc_result sample_lib Map.empty peer_number_node ''getblockchaininfo'' ''a-0.a.b'' \<noteq> PNone
   \<and> \<not> healthy (get_pod_metrics sample_lib Map.empty peer_number_node ''a-0.a.b'')"
  by (simp add: get_pod_metrics_eq peer_number_node_results built_example_hosts
        extractable_def is_sized_def zero_record_def)

text \<open>
  C3, amended. The health flag is true if and only if the chain call returned a result
  other than \<^verbatim>\<open>None\<close> and the \<^verbatim>\<open>try\<close> block ran to its end, that is, each of the three
  results is falsy or of the type its extraction needs (a mapping for the chain and the
  network call, a value with a length for the peer call). Among such results the flag
  depends on the chain result alone, and a healthy record with 0 peers and 0
  connections arises when only the peer and the network call fail.
\<close>

theorem healthy_iff_present_and_extractable:
  "(healthy (get_pod_metrics lib env net h) \<longleftrightarrow>
      rpc_result lib env net ''getblockchaininfo'' h \<noteq> PNone
      \<and> extractable (rpc_result lib env net ''getblockchaininfo'' h)
          (rpc_result lib env net ''getpeerinfo'' h) (rpc_result lib env net ''getnetworkinfo'' h))
   \<and> (rpc_result lib env net ''getblockchaininfo'' h \<noteq> PNone
        \<and> (truthy (rpc_result lib env net ''getblockchaininfo'' h)
              \<longrightarrow> is_dict (rpc_result lib env net ''getblockchaininfo'' h))
        \<and> rpc_result lib env net ''getpeerinfo'' h = PNone
        \<and> rpc_result lib env net ''getnetworkinfo'' h = PNone
      \<longrightarrow> healthy (get_pod_metrics lib env net h)
          \<and> peers (get_pod_metrics lib env net h) = 0
          \<and> connections (get_pod_metrics lib env net h) = PInt 0)
   \<and> (\<forall>net'. rpc_result lib env net' ''getblockchaininfo'' h
                = rpc_result lib env net ''getblockchaininfo'' h
        \<and> extractable (rpc_result lib env net ''getblockchaininfo'' h)
             (rpc_result lib env net ''getpeerinfo'' h) (rpc_result lib env net ''getnetworkinfo'' h)
        \<and> extractable (rpc_result lib env net' ''getblockchaininfo'' h)
             (rpc_result lib env net' ''getpeerinfo'' h) (rpc_result lib env net' ''getnetworkinfo'' h)
      \<longrightarrow> healthy (get_pod_metrics lib env net' h) = healthy (get_pod_metrics lib env net h))"
  by (simp add: get_pod_metrics_eq Let_def zero_record_def extractable_def)

theorem healthy_iff_present_and_extractable_witness:
  "rpc_result sample_lib Map.empty (node_answering [''getblockchaininfo'']) ''getblockchaininfo'' ''a-0.a.b''
     \<noteq> PNone
   \<and> rpc_result sample_lib Map.empty (node_answering [''getblockchaininfo'']) ''getpeerinfo'' ''a-0.a.b''
     = PNone
   \<and> rpc_result sample_lib Map.empty (node_answering [''getblockchaininfo'']) ''getnetworkinfo'' ''a-0.a.b''
     = PNone
   \<and> healthy (get_pod_metrics sample_lib Map.empty (node_answering [''getblockchaininfo'']) ''a-0.a.b'')
   \<and> peers (get_pod_metrics sample_lib Map.empty (node_answering [''getblockchaininfo'']) ''a-0.a.b'') = 0
   \<and> connections (get_pod_metrics sample_lib Map.empty (node_answering [''getblockchaininfo'']) ''a-0.a.b'')
     = PInt 0
   \<and> \<not> healthy (get_pod_metrics sample_lib Map.empty unreachable_node ''a-0.a.b'')"
  using healthy_iff_present_and_extractable
          [of sample_lib Map.empty "node_answering [''getblockchaininfo'']" "''a-0.a.b''"]
        healthy_iff_present_and_extractable [of sample_lib Map.empty unreachable_node "''a-0.a.b''"]
  by (simp add: node_answering_results built_example_hosts unreachable_node_results
        extractable_def is_dict_def)

text \<open>
  C9. There is an outcome of the chain call, the empty mapping, which is present but
  falsy, for which the record is healthy while blocks, difficulty and verification
  progress are all 0: a record with zero numerics does not imply a failed chain call.
  This holds for every pod whose chain request can be built.
\<close>

theorem empty_mapping_healthy_with_zero_numerics:
  "request_built lib env ''getblockchaininfo'' h \<longrightarrow>
   (\<exists>net. rpc_result lib env net ''getblockchaininfo'' h = PDict []
     \<and> rpc_result lib env net ''getblockchaininfo'' h \<noteq> PNone
     \<and> \<not> truthy (rpc_result lib env net ''getblockchaininfo'' h)
     \<and> healthy (get_pod_metrics lib env net h)
     \<and> blocks (get_pod_metrics lib env net h) = PInt 0
     \<and> difficulty (get_pod_metrics lib env net h) = PInt 0
     \<and> verification_progress (get_pod_metrics lib env net h) = PInt 0)"
proof
  assume built: "request_built lib env ''getblockchaininfo'' h"
  have data: "rpc_result lib env empty_info_node ''getblockchaininfo'' h = PDict []"
    using built by (rule empty_info_node_results)
  have m: "get_pod_metrics lib env empty_info_node h =
      \<lparr>pod = pod_name_of h, host = h, blocks = PInt 0, peers = 0, connections = PInt 0,
       difficulty = PInt 0, verification_progress = PInt 0, healthy = True\<rparr>"
    by (simp add: get_pod_metrics_def get_pod_metrics_try_def and_then_def
          data empty_info_node_results)
  show "\<exists>net. rpc_result lib env net ''getblockchaininfo'' h = PDict []
     \<and> rpc_result lib env net ''getblockchaininfo'' h \<noteq> PNone
     \<and> \<not> truthy (rpc_result lib env net ''getblockchaininfo'' h)
     \<and> healthy (get_pod_metrics lib env net h)
     \<and> blocks (get_pod_metrics lib env net h) = PInt 0
     \<and> difficulty (get_pod_metrics lib env net h) = PInt 0
     \<and> verification_progress (get_pod_metrics lib env net h) = PInt 0"
    by (rule exI [of _ empty_info_node]) (simp add: data m)
qed

theorem empty_mapping_healthy_with_zero_numerics_witness:
  "request_built sample_lib Map.empty ''getblockchaininfo'' ''a-0.a.b''
   \<and> (\<exists>net. rpc_result sample_lib Map.empty net ''getblockchaininfo'' ''a-0.a.b'' = PDict []
        \<and> rpc_result sample_lib Map.empty net ''getblockchaininfo'' ''a-0.a.b'' \<noteq> PNone
        \<and> \<not> truthy (rpc_result sample_lib Map.empty net ''getblockchaininfo'' ''a-0.a.b'')
        \<and> healthy (get_pod_metrics sample_lib Map.empty net ''a-0.a.b'')
        \<and> blocks (get_pod_metrics sample_lib Map.empty net ''a-0.a.b'') = PInt 0
        \<and> difficulty (get_pod_metrics sample_lib Map.empty net ''a-0.a.b'') = PInt 0
        \<and> verification_progress (get_pod_metrics sample_lib Map.empty net ''a-0.a.b'')
            = PInt 0)"
  using empty_mapping_healthy_with_zero_numerics [of sample_lib Map.empty "''a-0.a.b''"]
        built_example_hosts(1) [of "''getblockchaininfo''"]
  by blast

text \<open>
  C7, as stated, fails: the field is whatever the node reports. For a node that reports
  1.5 the record holds 1.5, which is outside the interval from 0 to 1.
\<close>

theorem verification_progress_in_unit_interval_counterexample:
  "verification_progress (get_pod_metrics sample_lib Map.empty overshoot_node ''a-0.a.b'')
     = PFloat (Finite (3 / 2))
   \<and> \<not> in_unit_interval
         (verification_progress (get_pod_metrics sample_lib Map.empty overshoot_node ''a-0.a.b''))"
  by (simp add: get_pod_metrics_def get_pod_metrics_try_def and_then_def
        overshoot_node_results built_example_hosts in_unit_interval_def)

text \<open>
  C7, amended. The verification progress of a record is the value the chain result
  holds under \<^verbatim>\<open>verificationprogress\<close>, unchanged, when the \<^verbatim>\<open>try\<close> block runs to its end
  (the integer 0 when the result holds no such value), and the integer 0 otherwise; it
  is 0 when the chain call failed. Hence it is a number between 0 and 1 whenever the
  value the node reports is one; the code neither converts nor clamps it.
\<close>

theorem verification_progress_passed_through:
  "verification_progress (get_pod_metrics lib env net h) =
     (if extractable (rpc_result lib env net ''getblockchaininfo'' h)
           (rpc_result lib env net ''getpeerinfo'' h) (rpc_result lib env net ''getnetworkinfo'' h)
      then field_or_zero (rpc_result lib env net ''getblockchaininfo'' h) ''verificationprogress''
      else PInt 0)
   \<and> (rpc_result lib env net ''getblockchaininfo'' h = PNone
      \<longrightarrow> verification_progress (get_pod_metrics lib env net h) = PInt 0)
   \<and> (in_unit_interval
        (field_or_zero (rpc_result lib env net ''getblockchaininfo'' h) ''verificationprogress'')
      \<longrightarrow> in_unit_interval (verification_progress (get_pod_metrics lib env net h)))"
  by (simp add: get_pod_metrics_eq Let_def zero_record_def in_unit_interval_def)

theorem verification_progress_passed_through_witness:
  "in_unit_interval
     (field_or_zero
        (rpc_result sample_lib Map.empty (node_answering [''getblockchaininfo'']) ''getblockchaininfo''
           ''a-0.a.b'')
        ''verificationprogress'')
   \<and> verification_progress
         (get_pod_metrics sample_lib Map.empty (node_answering [''getblockchaininfo'']) ''a-0.a.b'')
       = PFloat (Finite 1)
   \<and> in_unit_interval
       (verification_progress
          (get_pod_metrics sample_lib Map.empty (node_answering [''getblockchaininfo'']) ''a-0.a.b''))
   \<and> rpc_result sample_lib Map.empty unreachable_node ''getblockchaininfo'' ''a-0.a.b'' = PNone
   \<and> verification_progress (get_pod_metrics sample_lib Map.empty unreachable_node ''a-0.a.b'') = PInt 0"
  using verification_progress_passed_through
          [of sample_lib Map.empty "node_answering [''getblockchaininfo'']" "''a-0.a.b''"]
        verification_progress_passed_through
          [of sample_lib Map.empty unreachable_node "''a-0.a.b''"]
  by (simp add: node_answering_results built_example_hosts unreachable_node_results
        field_or_zero_def in_unit_interval_def extractable_def is_dict_def)

section \<open>Proofs: discovery\<close>

lemma discover_loop_resolved_prefix:
  "\<forall>i \<in> set front. dns (sn @ ''-'' @ str_nat i @ ''.'' @ bh) = Resolved \<Longrightarrow>
   discover_loop dns sn bh (front @ rest) pods probed =
   discover_loop dns sn bh rest
     (pods @ map (\<lambda>i. sn @ ''-'' @ str_nat i @ ''.'' @ bh) front)
     (probed @ map (\<lambda>i. sn @ ''-'' @ str_nat i @ ''.'' @ bh) front)"
  by (induction front arbitrary: pods probed) (simp_all add: Let_def)

lemma ordinal_host_eq:
  "ordinal_host env i =
     getenv env ''BITCOIN_SERVICE_NAME'' ''bitcoin-stack'' @ ''-'' @ str_nat i @ ''.''
     @ (getenv env ''BITCOIN_SERVICE_NAME'' ''bitcoin-stack'' @ ''.''
        @ getenv env ''BITCOIN_NAMESPACE'' ''bitcoin'' @ ''.svc.cluster.local'')"
  by (simp add: ordinal_host_def)

lemma discover_stops_at_gap:
  assumes k: "k < 10"
    and res: "\<forall>i<k. dns (ordinal_host env i) = Resolved"
    and gap: "dns (ordinal_host env k) = Gaierror"
  shows "discover_bitcoin_pods env dns =
           (Inr (map (ordinal_host env) [0..<k]), map (ordinal_host env) [0..<Suc k])"
proof -
  have split: "[0..<10] = [0..<k] @ k # [Suc k..<10]"
    using k by (metis upt_conv_Cons upt_add_eq_append le0 le_add_diff_inverse less_imp_le_nat)
  show ?thesis
    unfolding discover_bitcoin_pods_def Let_def split
    using res gap
    by (subst discover_loop_resolved_prefix)
       (simp_all add: ordinal_host_eq [abs_def])
qed







lemma ordinal_hosts_default:
  "map (ordinal_host Map.empty) [0..<3] =
     [''bitcoin-stack-0.bitcoin-stack.bitcoin.svc.cluster.local'',
      ''bitcoin-stack-1.bitcoin-stack.bitcoin.svc.cluster.local'',
      ''bitcoin-stack-2.bitcoin-stack.bitcoin.svc.cluster.local'']"
  by code_simp



section \<open>Proofs: rendering\<close>

lemma foldl_append_blocks:
  "foldl (\<lambda>out r. out @ f r) acc rs = acc @ concat (map f rs)"
  by (induction rs arbitrary: acc) simp_all

lemma render_concat: "render lib rs = concat (map (metrics_block lib) rs)"
  by (simp add: render_def foldl_append_blocks)

text \<open>
  C10. Rendering distributes over concatenation of record lists: the text of
  \<open>rs @ ss\<close> is the text of \<open>rs\<close> followed by the text of \<open>ss\<close>, each record
  contributing its own block, which depends on that record only. The empty list
  renders to the empty text, so the response built from it is a 200 with an empty body.
\<close>

theorem render_append_homomorphism:
  "render lib (rs @ ss) = render lib rs @ render lib ss
   \<and> render lib [] = []
   \<and> render lib [r] = metrics_block lib r
   \<and> render lib rs = concat (map (metrics_block lib) rs)
   \<and> metrics_response lib [] =
       \<lparr>sent = [Send_response 200, Send_header ''Content-type'' ''text/plain'', End_headers,
                Write []],
        raised = None\<rparr>"
  by (simp add: render_concat metrics_response_def encode_def)

section \<open>Proofs: the exposition format\<close>

lemma str_int_one: "str_int 1 = ''1''"
  by code_simp

lemma str_int_zero: "str_int 0 = ''0''"
  by code_simp

lemma str_int_flag: "str_int (if b then 1 else 0) = (if b then ''1'' else ''0'')"
  by (simp add: str_int_one str_int_zero)

lemma metrics_block_lines:
  "metrics_block lib r = terminate_lines (exposition_lines lib r)"
  by (simp add: metrics_block_def Let_def pod_label_def terminate_lines_def
        exposition_lines_def family_lines_def str_int_flag)

lemma terminate_lines_append:
  "terminate_lines (ks @ ls) = terminate_lines ks @ terminate_lines ls"
  by (simp add: terminate_lines_def)

lemma render_lines:
  "render lib rs = terminate_lines (concat (map (exposition_lines lib) rs))"
  by (induction rs) (simp_all add: render_concat metrics_block_lines terminate_lines_append,
      simp add: terminate_lines_def)

lemma length_exposition_lines: "length (exposition_lines lib r) = 18"
  by (simp add: exposition_lines_def family_lines_def)

lemma terminate_lines_nonempty: "ls \<noteq> [] \<Longrightarrow> terminate_lines ls \<noteq> []"
  by (cases ls) (simp_all add: terminate_lines_def)

lemma terminate_lines_last: "ls \<noteq> [] \<Longrightarrow> last (terminate_lines ls) = CHR ''\<newline>''"
  by (induction ls rule: rev_induct) (simp_all add: terminate_lines_def)

lemma split_lines_line:
  "newline_free l \<Longrightarrow> split_lines (l @ CHR ''\<newline>'' # rest) = l # split_lines rest"
  by (induction l) (auto simp: newline_free_def)

lemma split_terminate_lines:
  "\<forall>l \<in> set ls. newline_free l \<Longrightarrow> split_lines (terminate_lines ls) = ls"
  by (induction ls) (simp_all add: terminate_lines_def split_lines_line)

lemma digit_not_newline: "d < 10 \<Longrightarrow> char_of (48 + d :: nat) \<noteq> CHR ''\<newline>''"
proof
  assume d: "d < 10" and eq: "char_of (48 + d) = CHR ''\<newline>''"
  from eq have "(of_char (char_of (48 + d)) :: nat) = of_char (CHR ''\<newline>'')"
    by simp
  with d show False
    by simp
qed

lemma newline_free_str_nat: "newline_free (str_nat n)"
proof (induction n rule: str_nat.induct)
  case (1 n)
  show ?case
  proof (cases "n < 10")
    case True
    then show ?thesis
      using digit_not_newline [of n] by (simp add: str_nat.simps [of n] newline_free_def)
  next
    case False
    with 1 have "newline_free (str_nat (n div 10))" by simp
    moreover have "char_of (48 + n mod 10) \<noteq> CHR ''\<newline>''"
      by (rule digit_not_newline) simp
    ultimately show ?thesis
      using False by (simp add: str_nat.simps [of n] newline_free_def)
  qed
qed

lemma newline_free_str_int: "newline_free (str_int i)"
  using newline_free_str_nat [of "nat i"] newline_free_str_nat [of "nat (- i)"]
  by (simp add: str_int_def newline_free_def)

lemma newline_free_exposition_lines:
  assumes "single_line_fields lib r" and "l \<in> set (exposition_lines lib r)"
  shows "newline_free l"
  using assms newline_free_str_int [of "peers r"]
  by (auto simp: single_line_fields_def exposition_lines_def family_lines_def newline_free_def
        split: if_splits)

lemma split_render:
  assumes "\<forall>r \<in> set rs. single_line_fields lib r"
  shows "split_lines (render lib rs) = concat (map (exposition_lines lib) rs)"
  unfolding render_lines
  using assms by (intro split_terminate_lines) (auto dest: newline_free_exposition_lines)


lemma utf8_valid_append:
  "utf8_valid a \<Longrightarrow> utf8_valid b \<Longrightarrow> utf8_valid (a @ b)"
proof (induction a rule: utf8_valid.induct)
  case 1
  then show ?case by simp
next
  case (2 c cs)
  show ?case
    using "2.prems" "2.IH"
    by (auto simp: Let_def split: if_splits list.splits)
qed

lemma ascii_str_nat: "\<forall>c \<in> set (str_nat n). (of_char c :: nat) < 128"
proof (induction n rule: str_nat.induct)
  case (1 n)
  show ?case
  proof (cases "n < 10")
    case True
    then show ?thesis
      by (simp add: str_nat.simps [of n])
  next
    case False
    with 1 have "\<forall>c \<in> set (str_nat (n div 10)). (of_char c :: nat) < 128"
      by simp
    moreover have "(of_char (char_of (48 + n mod 10)) :: nat) < 128"
      by simp
    ultimately show ?thesis
      using False by (simp add: str_nat.simps [of n])
  qed
qed

lemma utf8_valid_str_int: "utf8_valid (str_int i)"
  using ascii_str_nat [of "nat i"] ascii_str_nat [of "nat (- i)"]
  by (intro utf8_valid_ascii) (simp add: str_int_def)

lemma utf8_valid_family_lines:
  assumes "utf8_valid name" and "utf8_valid help" and "utf8_valid label_value"
    and "utf8_valid sample_value"
  shows "\<forall>l \<in> set (family_lines name help label_value sample_value). utf8_valid l"
proof -
  have "utf8_valid ('' '' @ help)"
    using assms(2) by simp
  then have "utf8_valid (name @ '' '' @ help)"
    using assms(1) by (simp only: utf8_valid_append)
  then have help_line: "utf8_valid (''# HELP '' @ name @ '' '' @ help)"
    by simp
  have "utf8_valid (name @ '' gauge'')"
    using assms(1) utf8_valid_append [of name "'' gauge''"] by simp
  then have type_line: "utf8_valid (''# TYPE '' @ name @ '' gauge'')"
    by simp
  have "utf8_valid (''} '' @ sample_value)"
    using assms(4) by simp
  then have "utf8_valid ([CHR 0x22] @ ''} '' @ sample_value)"
    by simp
  then have "utf8_valid (label_value @ [CHR 0x22] @ ''} '' @ sample_value)"
    using assms(3) by (simp only: utf8_valid_append)
  then have "utf8_valid (''{pod='' @ [CHR 0x22] @ label_value @ [CHR 0x22] @ ''} ''
                          @ sample_value)"
    by simp
  then have sample_line:
    "utf8_valid (name @ ''{pod='' @ [CHR 0x22] @ label_value @ [CHR 0x22] @ ''} ''
                  @ sample_value)"
    using assms(1) by (simp only: utf8_valid_append)
  show ?thesis
    unfolding family_lines_def using help_line type_line sample_line by simp
qed

lemma utf8_valid_exposition_lines:
  assumes "encodable_fields lib r"
  shows "\<forall>l \<in> set (exposition_lines lib r). utf8_valid l"
proof -
  have flag: "utf8_valid (if healthy r then ''1'' else ''0'')"
    by simp
  show ?thesis
    unfolding exposition_lines_def set_append ball_Un
    using assms flag
    by (intro conjI utf8_valid_family_lines)
       (simp_all add: encodable_fields_def utf8_valid_str_int utf8_valid_ascii)
qed

lemma utf8_valid_terminate_lines:
  "\<forall>l \<in> set ls. utf8_valid l \<Longrightarrow> utf8_valid (terminate_lines ls)"
proof (induction ls)
  case Nil
  show ?case by (simp add: terminate_lines_def)
next
  case (Cons l ls)
  then have "utf8_valid (l @ ''\<newline>'')" and "utf8_valid (terminate_lines ls)"
    by (simp_all add: utf8_valid_append)
  then have "utf8_valid ((l @ ''\<newline>'') @ terminate_lines ls)"
    by (rule utf8_valid_append)
  then show ?case
    by (simp add: terminate_lines_def)
qed

lemma utf8_valid_render:
  assumes "\<forall>r \<in> set rs. encodable_fields lib r"
  shows "utf8_valid (render lib rs)"
  unfolding render_lines
  using assms by (intro utf8_valid_terminate_lines) (auto dest: utf8_valid_exposition_lines)

lemma encode_Inr: "encode lib s = Inr bytes \<longleftrightarrow> utf8_valid s \<and> bytes = s"
  by (auto simp: encode_def)

lemma metrics_response_encodable:
  assumes "\<forall>r \<in> set rs. encodable_fields lib r"
  shows "metrics_response lib rs =
     \<lparr>sent = [Send_response 200, Send_header ''Content-type'' ''text/plain'',
              End_headers, Write (render lib rs)],
      raised = None\<rparr>"
  using utf8_valid_render [OF assms] by (simp add: metrics_response_def encode_def)

lemma single_line_examples:
  "single_line_fields sample_lib synced_record"
  "single_line_fields sample_lib (zero_record ''a-1.a.b'')"
  using newline_free_str_int [of 800000] newline_free_str_int [of 5]
    newline_free_str_int [of 0]
  by (simp_all add: single_line_fields_def synced_record_def zero_record_def sample_lib_def
        sample_repr_def pod_name_of_def newline_free_def)

lemma two_line_record:
  "get_pod_metrics sample_lib Map.empty two_line_node ''a-0.a.b'' =
     \<lparr>pod = ''a-0'', host = ''a-0.a.b'', blocks = PStr ''0\<newline>bitcoin_blocks 1'', peers = 0,
      connections = PInt 0, difficulty = PInt 0, verification_progress = PInt 0,
      healthy = True\<rparr>"
  by (simp add: get_pod_metrics_def get_pod_metrics_try_def and_then_def
        two_line_node_results built_example_hosts pod_name_of_def)

lemma filter_sample_lines:
  "length (filter (\<lambda>l. \<not> is_comment l) (exposition_lines lib r)) = 6"
  by (simp add: exposition_lines_def family_lines_def is_comment_def)

lemma sample_lines_render:
  assumes "\<forall>r \<in> set rs. single_line_fields lib r"
  shows "length (sample_lines (render lib rs)) = 6 * length rs"
  unfolding sample_lines_def split_render [OF assms]
  by (induction rs) (simp_all add: filter_sample_lines)

lemma surrogate_record:
  "get_pod_metrics sample_lib Map.empty surrogate_node ''a-0.a.b'' =
     \<lparr>pod = ''a-0'', host = ''a-0.a.b'', blocks = PStr [CHR 0xED, CHR 0xA0, CHR 0x80],
      peers = 0, connections = PInt 0, difficulty = PInt 0, verification_progress = PInt 0,
      healthy = True\<rparr>"
  by (simp add: get_pod_metrics_def get_pod_metrics_try_def and_then_def
        surrogate_node_results built_example_hosts pod_name_of_def)

lemma utf8_valid_ascii_prefix:
  "\<forall>c \<in> set a. (of_char c :: nat) < 128 \<Longrightarrow> utf8_valid (a @ b) = utf8_valid b"
  by (induction a) simp_all

lemma surrogate_not_valid: "\<not> utf8_valid (CHR 0xED # CHR 0xA0 # CHR 0x80 # rest)"
  by simp

lemma surrogate_render_not_valid:
  "\<not> utf8_valid (render sample_lib
        [get_pod_metrics sample_lib Map.empty surrogate_node ''a-0.a.b''])"
proof -
  define rest where "rest = drop 100 (render sample_lib
        [get_pod_metrics sample_lib Map.empty surrogate_node ''a-0.a.b''])"
  have "render sample_lib [get_pod_metrics sample_lib Map.empty surrogate_node ''a-0.a.b'']
      = (''# HELP bitcoin_blocks Current block height\<newline>''
         @ ''# TYPE bitcoin_blocks gauge\<newline>''
         @ ''bitcoin_blocks{pod='' @ [CHR 0x22] @ ''a-0'' @ [CHR 0x22] @ ''} '')
        @ CHR 0xED # CHR 0xA0 # CHR 0x80 # rest"
    unfolding rest_def
    by (simp add: surrogate_record render_def metrics_block_def pod_label_def)
  moreover have "\<not> utf8_valid ((''# HELP bitcoin_blocks Current block height\<newline>''
         @ ''# TYPE bitcoin_blocks gauge\<newline>''
         @ ''bitcoin_blocks{pod='' @ [CHR 0x22] @ ''a-0'' @ [CHR 0x22] @ ''} '')
        @ CHR 0xED # CHR 0xA0 # CHR 0x80 # rest)"
    using surrogate_not_valid [of rest]
    by (subst utf8_valid_ascii_prefix) simp_all
  ultimately show ?thesis
    by simp
qed

lemma surrogate_response:
  "encode sample_lib (render sample_lib
        [get_pod_metrics sample_lib Map.empty surrogate_node ''a-0.a.b''])
     = Inl (UnicodeEncodeError ''surrogates not allowed'')"
  "metrics_response sample_lib
        [get_pod_metrics sample_lib Map.empty surrogate_node ''a-0.a.b'']
     = \<lparr>sent = [Send_response 200, Send_header ''Content-type'' ''text/plain'', End_headers,
                Send_response 500, End_headers, Write ''Error: surrogates not allowed''],
        raised = None\<rparr>"
  using surrogate_render_not_valid
  by (simp_all add: encode_def metrics_response_def error_response_def sample_lib_def)

text \<open>
  C6, as stated, fails for a record whose value holds a newline or a surrogate: the
  renderer writes values as they are. The first node below reports its block height as
  a text of two lines; the record of that pod renders to 19 lines with 7 samples, one
  of them an unlabelled sample the node chose. The second node reports its block height
  as the text of the lone surrogate U+D800; the rendered text of that record cannot be
  encoded, and the handler, having sent the status line and the headers of the 200
  response, goes on with the 500 response.
\<close>

theorem render_one_sample_per_line_counterexample:
  "blocks (get_pod_metrics sample_lib Map.empty two_line_node ''a-0.a.b'')
     = PStr ''0\<newline>bitcoin_blocks 1''
   \<and> length (split_lines
        (render sample_lib [get_pod_metrics sample_lib Map.empty two_line_node ''a-0.a.b''])) = 19
   \<and> length (sample_lines
        (render sample_lib [get_pod_metrics sample_lib Map.empty two_line_node ''a-0.a.b''])) = 7
   \<and> ''bitcoin_blocks 1'' \<in> set (sample_lines
        (render sample_lib [get_pod_metrics sample_lib Map.empty two_line_node ''a-0.a.b'']))
   \<and> blocks (get_pod_metrics sample_lib Map.empty surrogate_node ''a-0.a.b'')
       = PStr [CHR 0xED, CHR 0xA0, CHR 0x80]
   \<and> encode sample_lib
        (render sample_lib [get_pod_metrics sample_lib Map.empty surrogate_node ''a-0.a.b''])
       = Inl (UnicodeEncodeError ''surrogates not allowed'')
   \<and> metrics_response sample_lib
        [get_pod_metrics sample_lib Map.empty surrogate_node ''a-0.a.b'']
       = \<lparr>sent = [Send_response 200, Send_header ''Content-type'' ''text/plain'',
                  End_headers, Send_response 500, End_headers,
                  Write ''Error: surrogates not allowed''],
          raised = None\<rparr>"
proof -
  define r where "r = get_pod_metrics sample_lib Map.empty two_line_node ''a-0.a.b''"
  define clean where "clean = r\<lparr>blocks := PInt 0\<rparr>"
  define L where "L = exposition_lines sample_lib clean"
  define s0 where "s0 = ''bitcoin_blocks{pod='' @ [CHR 0x22] @ ''a-0'' @ [CHR 0x22] @ ''} 0''"
  have r: "r = \<lparr>pod = ''a-0'', host = ''a-0.a.b'', blocks = PStr ''0\<newline>bitcoin_blocks 1'',
                 peers = 0, connections = PInt 0, difficulty = PInt 0,
                 verification_progress = PInt 0, healthy = True\<rparr>"
    by (simp add: r_def two_line_record)
  have clean_ok: "single_line_fields sample_lib clean"
    by (simp add: clean_def r single_line_fields_def newline_free_def str_int_zero)
  have L_free: "\<forall>l \<in> set L. newline_free l"
    using clean_ok newline_free_exposition_lines unfolding L_def by blast
  have L_len: "length L = 18"
    by (simp add: L_def length_exposition_lines)
  have lines_r: "exposition_lines sample_lib r
      = take 2 L @ [s0 @ CHR ''\<newline>'' # ''bitcoin_blocks 1''] @ drop 3 L"
    by (simp add: L_def clean_def r exposition_lines_def family_lines_def s0_def str_int_zero)
  have rendered: "render sample_lib [r]
      = terminate_lines (take 2 L @ [s0, ''bitcoin_blocks 1''] @ drop 3 L)"
    by (simp add: render_lines lines_r terminate_lines_def)
  have free: "\<forall>l \<in> set (take 2 L @ [s0, ''bitcoin_blocks 1''] @ drop 3 L). newline_free l"
    using L_free by (auto dest: in_set_takeD in_set_dropD simp: s0_def newline_free_def)
  have split: "split_lines (render sample_lib [r])
      = take 2 L @ [s0, ''bitcoin_blocks 1''] @ drop 3 L"
    unfolding rendered using free by (rule split_terminate_lines)
  have n: "length (split_lines (render sample_lib [r])) = 19"
    unfolding split by (simp add: L_len)
  have samples: "length (filter (\<lambda>l. \<not> is_comment l)
                   (take 2 L @ [s0, ''bitcoin_blocks 1''] @ drop 3 L)) = 7"
    by (simp add: L_def clean_def r exposition_lines_def family_lines_def is_comment_def
          s0_def)
  have injected: "''bitcoin_blocks 1'' \<in> set (filter (\<lambda>l. \<not> is_comment l)
                   (take 2 L @ [s0, ''bitcoin_blocks 1''] @ drop 3 L))"
    by (simp add: is_comment_def)
  have two_lines:
    "blocks r = PStr ''0\<newline>bitcoin_blocks 1''
     \<and> length (split_lines (render sample_lib [r])) = 19
     \<and> length (sample_lines (render sample_lib [r])) = 7
     \<and> ''bitcoin_blocks 1'' \<in> set (sample_lines (render sample_lib [r]))"
    unfolding sample_lines_def split
    using n [unfolded split] samples injected by (simp add: r)
  have height: "blocks (get_pod_metrics sample_lib Map.empty surrogate_node ''a-0.a.b'')
      = PStr [CHR 0xED, CHR 0xA0, CHR 0x80]"
    by (simp add: surrogate_record)
  show ?thesis
    using two_lines [unfolded r_def] height surrogate_response by blast
qed

lemma encodable_examples:
  "encodable_fields sample_lib synced_record"
  "encodable_fields sample_lib (zero_record ''a-1.a.b'')"
  using utf8_valid_str_int [of 800000] utf8_valid_str_int [of 5] utf8_valid_str_int [of 0]
  by (simp_all add: encodable_fields_def synced_record_def zero_record_def sample_lib_def
        sample_repr_def pod_name_of_def)

text \<open>
  C6, amended. For every non-empty list of records the rendered text is non-empty and
  ends in a newline. The text is, record by record, the six metric families
  \<^verbatim>\<open>bitcoin_blocks\<close>, \<^verbatim>\<open>bitcoin_peers\<close>, \<^verbatim>\<open>bitcoin_connections\<close>, \<^verbatim>\<open>bitcoin_difficulty\<close>,
  \<^verbatim>\<open>bitcoin_verification_progress\<close> and \<^verbatim>\<open>bitcoin_pod_healthy\<close>, each a \<^verbatim>\<open>HELP\<close> line, a
  \<^verbatim>\<open>TYPE\<close> line marking a gauge and one sample \<^verbatim>\<open>metric_name{pod="value"} sample_value\<close>
  labelled with the record's pod name, each ended by a newline, the health sample being
  1 for a healthy record and 0 otherwise. When the pod names and the texts of the
  values hold no newline, as the texts of numbers do, the lines of the rendered text
  are exactly those 18 lines per record, with one sample per line and six samples per
  record. When the pod names and the texts of the values can be encoded, as the texts
  of numbers can, the rendered text is encoded as well-formed UTF-8 and is the body of
  the 200 response; whatever bytes the encoding yields are well-formed UTF-8.
\<close>

theorem render_well_formed:
  "(rs \<noteq> [] \<longrightarrow> render lib rs \<noteq> [] \<and> last (render lib rs) = CHR ''\<newline>'')
   \<and> render lib rs = terminate_lines (concat (map (exposition_lines lib) rs))
   \<and> length (concat (map (exposition_lines lib) rs)) = 18 * length rs
   \<and> ((\<forall>r \<in> set rs. single_line_fields lib r)
      \<longrightarrow> split_lines (render lib rs) = concat (map (exposition_lines lib) rs)
          \<and> length (sample_lines (render lib rs)) = 6 * length rs)
   \<and> ((\<forall>r \<in> set rs. encodable_fields lib r)
      \<longrightarrow> utf8_valid (render lib rs)
          \<and> encode lib (render lib rs) = Inr (render lib rs)
          \<and> metrics_response lib rs =
              \<lparr>sent = [Send_response 200, Send_header ''Content-type'' ''text/plain'',
                       End_headers, Write (render lib rs)],
               raised = None\<rparr>)
   \<and> (\<forall>bytes. encode lib (render lib rs) = Inr bytes
        \<longrightarrow> utf8_valid bytes \<and> bytes = render lib rs)"
proof (intro conjI impI allI)
  assume ne: "rs \<noteq> []"
  then obtain r rest where rs: "rs = r # rest"
    by (cases rs) auto
  have lines: "concat (map (exposition_lines lib) rs) \<noteq> []"
    using length_exposition_lines [of lib r] by (auto simp: rs)
  show "render lib rs \<noteq> []"
    unfolding render_lines using lines by (rule terminate_lines_nonempty)
  show "last (render lib rs) = CHR ''\<newline>''"
    unfolding render_lines using lines by (rule terminate_lines_last)
next
  show "render lib rs = terminate_lines (concat (map (exposition_lines lib) rs))"
    by (rule render_lines)
  show "length (concat (map (exposition_lines lib) rs)) = 18 * length rs"
    by (induction rs) (simp_all add: length_exposition_lines)
next
  assume fields: "\<forall>r \<in> set rs. single_line_fields lib r"
  then show "split_lines (render lib rs) = concat (map (exposition_lines lib) rs)"
    by (rule split_render)
  from fields show "length (sample_lines (render lib rs)) = 6 * length rs"
    by (rule sample_lines_render)
next
  assume "\<forall>r \<in> set rs. encodable_fields lib r"
  then show valid: "utf8_valid (render lib rs)"
    by (rule utf8_valid_render)
  then show "encode lib (render lib rs) = Inr (render lib rs)"
    by (simp add: encode_def)
  then show "metrics_response lib rs =
              \<lparr>sent = [Send_response 200, Send_header ''Content-type'' ''text/plain'',
                       End_headers, Write (render lib rs)],
               raised = None\<rparr>"
    by (simp add: metrics_response_def)
next
  fix bytes
  assume "encode lib (render lib rs) = Inr bytes"
  then show "utf8_valid bytes" and "bytes = render lib rs"
    by (simp_all add: encode_Inr)
qed

theorem render_well_formed_witness:
  "[synced_record, zero_record ''a-1.a.b''] \<noteq> []
   \<and> single_line_fields sample_lib synced_record
   \<and> single_line_fields sample_lib (zero_record ''a-1.a.b'')
   \<and> encodable_fields sample_lib synced_record
   \<and> encodable_fields sample_lib (zero_record ''a-1.a.b'')
   \<and> render sample_lib [synced_record, zero_record ''a-1.a.b''] \<noteq> []
   \<and> last (render sample_lib [synced_record, zero_record ''a-1.a.b'']) = CHR ''\<newline>''
   \<and> split_lines (render sample_lib [synced_record, zero_record ''a-1.a.b''])
       = exposition_lines sample_lib synced_record
         @ exposition_lines sample_lib (zero_record ''a-1.a.b'')
   \<and> length (split_lines (render sample_lib [synced_record, zero_record ''a-1.a.b''])) = 36
   \<and> length (sample_lines (render sample_lib [synced_record, zero_record ''a-1.a.b''])) = 12
   \<and> encode sample_lib (render sample_lib [synced_record, zero_record ''a-1.a.b''])
       = Inr (render sample_lib [synced_record, zero_record ''a-1.a.b''])
   \<and> utf8_valid (render sample_lib [synced_record, zero_record ''a-1.a.b''])"
proof -
  let ?rs = "[synced_record, zero_record ''a-1.a.b'']"
  note inst = render_well_formed [of ?rs sample_lib]
  have ne: "?rs \<noteq> []"
    by simp
  have fields: "\<forall>r \<in> set ?rs. single_line_fields sample_lib r"
    using single_line_examples by simp
  have codes: "\<forall>r \<in> set ?rs. encodable_fields sample_lib r"
    using encodable_examples by simp
  from inst ne have shape:
    "render sample_lib ?rs \<noteq> [] \<and> last (render sample_lib ?rs) = CHR ''\<newline>''"
    by blast
  from inst fields have split:
    "split_lines (render sample_lib ?rs) = concat (map (exposition_lines sample_lib) ?rs)"
    by blast
  from inst fields have "length (sample_lines (render sample_lib ?rs)) = 6 * length ?rs"
    by blast
  then have samples: "length (sample_lines (render sample_lib ?rs)) = 12"
    by simp
  from inst codes have encoded:
    "encode sample_lib (render sample_lib ?rs) = Inr (render sample_lib ?rs)
     \<and> utf8_valid (render sample_lib ?rs)"
    by blast
  have cat: "concat (map (exposition_lines sample_lib) ?rs)
      = exposition_lines sample_lib synced_record
        @ exposition_lines sample_lib (zero_record ''a-1.a.b'')"
    by simp
  have len: "length (split_lines (render sample_lib ?rs)) = 36"
    unfolding split cat by (simp add: length_exposition_lines)
  show ?thesis
    using ne single_line_examples encodable_examples shape split [unfolded cat] len samples
      encoded
    by blast
qed

section \<open>Proofs: fan-out\<close>

lemma as_completed_mset: "as_completed pending finished \<Longrightarrow> mset finished = mset pending"
  by (induction rule: as_completed.induct) simp_all

lemma as_completed_length: "as_completed pending finished \<Longrightarrow> length finished = length pending"
  using as_completed_mset [THEN arg_cong, of pending finished size] by simp

lemma as_completed_submission_order: "as_completed pending pending"
  by (induction pending) (auto intro: as_completed.intros)

lemma as_completed_swap: "as_completed [a, b] [b, a]"
proof -
  have rest: "remove1 b [a, b] = [a]"
    by simp
  have "as_completed (remove1 b [a, b]) [a]"
    unfolding rest by (rule as_completed_submission_order)
  then show ?thesis
    by (rule as_completed.next_done [rotated]) simp
qed

lemma collect_all_iff:
  "collect_all lib env net pods all_metrics \<longleftrightarrow>
     as_completed (map (get_pod_metrics lib env net) pods) all_metrics"
  by (auto elim: collect_all.cases intro: collect_all.intros)

lemma collect_all_hosts:
  assumes "collect_all lib env net pods all_metrics"
  shows "mset (map host all_metrics) = mset pods"
proof -
  from assms have "mset all_metrics = mset (map (get_pod_metrics lib env net) pods)"
    by (simp add: collect_all_iff as_completed_mset)
  then have "image_mset host (mset all_metrics)
           = image_mset host (mset (map (get_pod_metrics lib env net) pods))"
    by simp
  then show ?thesis
    by (simp add: multiset.map_comp comp_def)
qed

lemma collect_all_length:
  "collect_all lib env net pods all_metrics \<Longrightarrow> length all_metrics = length pods"
  by (auto simp: collect_all_iff dest: as_completed_length)

lemma collect_all_exists: "collect_all lib env net pods (map (get_pod_metrics lib env net) pods)"
  by (simp add: collect_all_iff as_completed_submission_order)

lemma length_pods_or_fallback: "length (pods_or_fallback env pods) = max (length pods) 1"
  by (cases pods) (simp_all add: pods_or_fallback_def)

lemma discover_loop_bound:
  "discover_loop dns sn bh ordinals pods probed = (Inr found, probed')
   \<Longrightarrow> length found \<le> length pods + length ordinals"
  by (induction ordinals arbitrary: pods probed)
     (fastforce simp: Let_def split: resolution.splits)+

lemma discover_at_most_ten:
  "fst (discover_bitcoin_pods env dns) = Inr pods \<Longrightarrow> length pods \<le> 10"
  using discover_loop_bound [of dns _ _ "[0..<10]" "[]" "[]" pods]
  by (cases "discover_bitcoin_pods env dns") (auto simp: discover_bitcoin_pods_def Let_def)

text \<open>
  C1. For every list of discovered pods, the pipeline collects exactly
  \<open>max N 1\<close> records, where \<open>N\<close> is the number of pods, one record per pod host
  whatever the RPC calls do, in some completion order; such a collection always
  exists. When discovery returns no pod, the single host
  \<^verbatim>\<open><service>-0.<service>.<namespace>.svc.cluster.local\<close> of the configured service and
  namespace is collected instead. A discovery returns at most 10 pods, and every
  outcome of \<^verbatim>\<open>GET /metrics\<close> after a discovery is the handler's response to such a
  list of records: the 200 response with their rendered text as body when their pod
  names and the texts of their values can be encoded.
\<close>

theorem pipeline_one_record_per_endpoint:
  "(collect_all lib env net (pods_or_fallback env pods) all_metrics
      \<longrightarrow> length all_metrics = max (length pods) 1
          \<and> mset (map host all_metrics) = mset (pods_or_fallback env pods))
   \<and> (\<exists>produced. collect_all lib env net (pods_or_fallback env pods) produced)
   \<and> (pods = []
      \<longrightarrow> pods_or_fallback env pods =
            [getenv env ''BITCOIN_SERVICE_NAME'' ''bitcoin-stack'' @ ''-0.''
             @ getenv env ''BITCOIN_SERVICE_NAME'' ''bitcoin-stack'' @ ''.''
             @ getenv env ''BITCOIN_NAMESPACE'' ''bitcoin'' @ ''.svc.cluster.local''])
   \<and> (pods \<noteq> [] \<longrightarrow> pods_or_fallback env pods = pods)
   \<and> (fst (discover_bitcoin_pods (environ_of w) (gethostbyname w)) = Inr pods
        \<and> do_GET lib w ''/metrics'' resp
      \<longrightarrow> length pods \<le> 10
          \<and> (\<exists>records. resp = metrics_response lib records
                \<and> length records = max (length pods) 1
                \<and> mset (map host records) = mset (pods_or_fallback (environ_of w) pods)
                \<and> ((\<forall>r \<in> set records. encodable_fields lib r)
                   \<longrightarrow> resp =
                         \<lparr>sent = [Send_response 200,
                                  Send_header ''Content-type'' ''text/plain'',
                                  End_headers, Write (render lib records)],
                          raised = None\<rparr>)))"
proof (intro conjI impI)
  assume c: "collect_all lib env net (pods_or_fallback env pods) all_metrics"
  show "length all_metrics = max (length pods) 1"
    using collect_all_length [OF c] by (simp add: length_pods_or_fallback)
  show "mset (map host all_metrics) = mset (pods_or_fallback env pods)"
    using c by (rule collect_all_hosts)
next
  show "\<exists>produced. collect_all lib env net (pods_or_fallback env pods) produced"
    using collect_all_exists by blast
next
  assume "pods = []"
  then show "pods_or_fallback env pods =
            [getenv env ''BITCOIN_SERVICE_NAME'' ''bitcoin-stack'' @ ''-0.''
             @ getenv env ''BITCOIN_SERVICE_NAME'' ''bitcoin-stack'' @ ''.''
             @ getenv env ''BITCOIN_NAMESPACE'' ''bitcoin'' @ ''.svc.cluster.local'']"
    by (simp add: pods_or_fallback_def fallback_host_def Let_def)
next
  assume "pods \<noteq> []"
  then show "pods_or_fallback env pods = pods"
    by (simp add: pods_or_fallback_def)
next
  assume a: "fst (discover_bitcoin_pods (environ_of w) (gethostbyname w)) = Inr pods
        \<and> do_GET lib w ''/metrics'' resp"
  then show "length pods \<le> 10"
    using discover_at_most_ten by blast
  from a obtain records where
    r: "resp = metrics_response lib records"
       "collect_all lib (environ_of w) (urlopen w) (pods_or_fallback (environ_of w) pods) records"
    by (auto elim: do_GET.cases)
  have "length records = max (length pods) 1"
    using collect_all_length [OF r(2)] by (simp add: length_pods_or_fallback)
  moreover have "mset (map host records) = mset (pods_or_fallback (environ_of w) pods)"
    using r(2) by (rule collect_all_hosts)
  moreover have "(\<forall>r \<in> set records. encodable_fields lib r)
      \<longrightarrow> resp = \<lparr>sent = [Send_response 200, Send_header ''Content-type'' ''text/plain'',
                           End_headers, Write (render lib records)],
                   raised = None\<rparr>"
    using r(1) metrics_response_encodable by blast
  ultimately show "\<exists>records. resp = metrics_response lib records
                \<and> length records = max (length pods) 1
                \<and> mset (map host records) = mset (pods_or_fallback (environ_of w) pods)
                \<and> ((\<forall>r \<in> set records. encodable_fields lib r)
                   \<longrightarrow> resp =
                         \<lparr>sent = [Send_response 200,
                                  Send_header ''Content-type'' ''text/plain'',
                                  End_headers, Write (render lib records)],
                          raised = None\<rparr>)"
    using r(1) by blast
qed

lemma unreachable_record: "get_pod_metrics lib env unreachable_node h = zero_record h"
  by (simp add: get_pod_metrics_eq unreachable_node_results extractable_def zero_record_def)

lemma dark_world_discovery:
  "fst (discover_bitcoin_pods (environ_of dark_world) (gethostbyname dark_world)) = Inr []"
  using discover_stops_at_gap [of 0 "resolves_below Map.empty 0" Map.empty]
  by (simp add: dark_world_def resolves_below_def)

lemma fallback_host_default:
  "fallback_host Map.empty = ''bitcoin-stack-0.bitcoin-stack.bitcoin.svc.cluster.local''"
  by (simp add: fallback_host_def getenv_def)

theorem pipeline_one_record_per_endpoint_witness:
  "collect_all sample_lib Map.empty unreachable_node (pods_or_fallback Map.empty [])
     [zero_record ''bitcoin-stack-0.bitcoin-stack.bitcoin.svc.cluster.local'']
   \<and> length [zero_record ''bitcoin-stack-0.bitcoin-stack.bitcoin.svc.cluster.local'']
       = max (length ([] :: string list)) 1
   \<and> pods_or_fallback Map.empty []
       = [''bitcoin-stack-0.bitcoin-stack.bitcoin.svc.cluster.local'']
   \<and> fst (discover_bitcoin_pods (environ_of dark_world) (gethostbyname dark_world)) = Inr []
   \<and> do_GET sample_lib dark_world ''/metrics''
       (metrics_response sample_lib
          [zero_record ''bitcoin-stack-0.bitcoin-stack.bitcoin.svc.cluster.local''])
   \<and> encodable_fields sample_lib
        (zero_record ''bitcoin-stack-0.bitcoin-stack.bitcoin.svc.cluster.local'')
   \<and> metrics_response sample_lib
        [zero_record ''bitcoin-stack-0.bitcoin-stack.bitcoin.svc.cluster.local'']
       = \<lparr>sent = [Send_response 200, Send_header ''Content-type'' ''text/plain'',
                  End_headers,
                  Write (render sample_lib
                    [zero_record ''bitcoin-stack-0.bitcoin-stack.bitcoin.svc.cluster.local''])],
          raised = None\<rparr>
   \<and> collect_all sample_lib Map.empty
        (node_answering [''getblockchaininfo'', ''getpeerinfo'', ''getnetworkinfo''])
        (pods_or_fallback Map.empty [''a-0.a.b'', ''a-1.a.b''])
        [synced_record\<lparr>pod := ''a-1'', host := ''a-1.a.b''\<rparr>,
         synced_record\<lparr>pod := ''a-0'', host := ''a-0.a.b''\<rparr>]
   \<and> mset (map host [synced_record\<lparr>pod := ''a-1'', host := ''a-1.a.b''\<rparr>,
                       synced_record\<lparr>pod := ''a-0'', host := ''a-0.a.b''\<rparr>])
       = mset (pods_or_fallback Map.empty [''a-0.a.b'', ''a-1.a.b''])"
proof -
  let ?fh = "''bitcoin-stack-0.bitcoin-stack.bitcoin.svc.cluster.local''"
  let ?full = "node_answering [''getblockchaininfo'', ''getpeerinfo'', ''getnetworkinfo'']"
  let ?swapped = "[synced_record\<lparr>pod := ''a-1'', host := ''a-1.a.b''\<rparr>,
                   synced_record\<lparr>pod := ''a-0'', host := ''a-0.a.b''\<rparr>]"
  have fb: "pods_or_fallback Map.empty [] = [?fh]"
    by (simp add: pods_or_fallback_def fallback_host_default)
  have dark: "collect_all sample_lib Map.empty unreachable_node (pods_or_fallback Map.empty [])
                [zero_record ?fh]"
    using collect_all_exists [of sample_lib Map.empty unreachable_node "[?fh]"]
    by (simp add: fb unreachable_record)
  have get: "do_GET sample_lib dark_world ''/metrics''
               (metrics_response sample_lib [zero_record ?fh])"
    using dark dark_world_discovery
    by (intro do_GET.metrics_ok [where pods = "[]"]) (simp_all add: dark_world_def)
  have enc: "encodable_fields sample_lib (zero_record ?fh)"
    using utf8_valid_str_int [of 0]
    by (simp add: encodable_fields_def zero_record_def pod_name_of_def)
  have body: "metrics_response sample_lib [zero_record ?fh]
      = \<lparr>sent = [Send_response 200, Send_header ''Content-type'' ''text/plain'',
                 End_headers, Write (render sample_lib [zero_record ?fh])],
         raised = None\<rparr>"
    using enc by (intro metrics_response_encodable) simp
  have two: "collect_all sample_lib Map.empty ?full
               (pods_or_fallback Map.empty [''a-0.a.b'', ''a-1.a.b'']) ?swapped"
    by (simp add: collect_all_iff pods_or_fallback_def full_node_record built_example_hosts
          synced_record_def pod_name_of_def as_completed_swap)
  note inst = pipeline_one_record_per_endpoint
  from inst [of sample_lib Map.empty unreachable_node "[]" "[zero_record ?fh]" dark_world
               "metrics_response sample_lib [zero_record ?fh]"] dark
  have "length [zero_record ?fh] = max (length ([] :: string list)) 1"
    by blast
  moreover from inst [of sample_lib Map.empty ?full "[''a-0.a.b'', ''a-1.a.b'']" ?swapped] two
  have "mset (map host ?swapped) = mset (pods_or_fallback Map.empty [''a-0.a.b'', ''a-1.a.b''])"
    by blast
  ultimately show ?thesis
    using dark fb dark_world_discovery get enc body two by blast
qed

section \<open>Proofs: the handler\<close>

text \<open>
  C8. For every path other than \<^verbatim>\<open>/metrics\<close> and \<^verbatim>\<open>/health\<close> the only outcome is the
  status 404 with no header set and nothing written, in every world. For \<^verbatim>\<open>/health\<close>
  the only outcome is the status 200 with \<^verbatim>\<open>Content-type: text/plain\<close> and the body
  \<^verbatim>\<open>OK\<close>, in every world: neither the resolver nor the network nor the renderer has a
  part in it.
\<close>

theorem do_GET_not_found_and_health:
  "(path \<noteq> ''/metrics'' \<and> path \<noteq> ''/health''
      \<longrightarrow> (\<forall>out. do_GET lib w path out
                 \<longleftrightarrow> out = \<lparr>sent = [Send_response 404, End_headers], raised = None\<rparr>))
   \<and> (\<forall>out. do_GET lib w ''/health'' out
         \<longleftrightarrow> out = \<lparr>sent = [Send_response 200, Send_header ''Content-type'' ''text/plain'',
                              End_headers, Write ''OK''],
                      raised = None\<rparr>)"
  by (auto elim: do_GET.cases intro: do_GET.intros)

theorem do_GET_not_found_and_health_witness:
  "''/nonexistent'' \<noteq> ''/metrics'' \<and> ''/nonexistent'' \<noteq> ''/health''
   \<and> do_GET sample_lib dark_world ''/nonexistent''
         \<lparr>sent = [Send_response 404, End_headers], raised = None\<rparr>
   \<and> \<not> do_GET sample_lib two_pod_world ''/nonexistent''
         \<lparr>sent = [Send_response 200, Send_header ''Content-type'' ''text/plain'',
                  End_headers, Write ''OK''],
          raised = None\<rparr>
   \<and> do_GET sample_lib dark_world ''/health''
         \<lparr>sent = [Send_response 200, Send_header ''Content-type'' ''text/plain'',
                  End_headers, Write ''OK''],
          raised = None\<rparr>"
  using do_GET_not_found_and_health [of "''/nonexistent''" sample_lib dark_world]
        do_GET_not_found_and_health [of "''/nonexistent''" sample_lib two_pod_world]
  by simp

end
